theory Spec2Isabelle
  imports Main "HOL-Library.Char_ord"
begin

section \<open>Strings\<close>

text \<open>
  Source texts are JavaScript strings. They are modelled as \<open>string\<close> (a list of
  \<open>char\<close>), one \<open>char\<close> per UTF-16 code unit, for texts whose code units are all
  below 256. The white space of \<open>trim\<close> and of the class \<open>\s\<close> is, on that range, tab,
  line feed, vertical tab, form feed, carriage return, space and no-break space.
\<close>

definition is_space :: "char \<Rightarrow> bool" where
  "is_space c = (c \<in> set [CHR 0x09, CHR 0x0A, CHR 0x0B, CHR 0x0C, CHR 0x0D, CHR 0x20, CHR 0xA0])"

text \<open>Characters are ordered by their code.\<close>

definition is_digit :: "char \<Rightarrow> bool" where
  "is_digit c = (CHR ''0'' \<le> c \<and> c \<le> CHR ''9'')"

definition is_lower :: "char \<Rightarrow> bool" where
  "is_lower c = (CHR ''a'' \<le> c \<and> c \<le> CHR ''z'')"

definition is_upper :: "char \<Rightarrow> bool" where
  "is_upper c = (CHR ''A'' \<le> c \<and> c \<le> CHR ''Z'')"

definition is_word :: "char \<Rightarrow> bool" where
  "is_word c = (is_lower c \<or> is_upper c \<or> is_digit c \<or> c = CHR ''_'')"

definition is_line_term :: "char \<Rightarrow> bool" where
  "is_line_term c = (c = CHR 0x0A \<or> c = CHR 0x0D)"

text \<open>
  The two cases of a letter differ in one bit of the code (32): \<open>toUpperCase\<close> clears it
  in a small letter and \<open>toLowerCase\<close> sets it in a capital letter.
\<close>

fun case_bit :: "bool \<Rightarrow> char \<Rightarrow> char" where
  "case_bit b (Char b0 b1 b2 b3 b4 b5 b6 b7) = Char b0 b1 b2 b3 b4 b b6 b7"

definition to_upper :: "char \<Rightarrow> char" where
  "to_upper c = (if is_lower c then case_bit False c else c)"

definition to_lower :: "char \<Rightarrow> char" where
  "to_lower c = (if is_upper c then case_bit True c else c)"

definition trimStart :: "string \<Rightarrow> string" where
  "trimStart s = dropWhile is_space s"

definition trimEnd :: "string \<Rightarrow> string" where
  "trimEnd s = rev (dropWhile is_space (rev s))"

definition trim :: "string \<Rightarrow> string" where
  "trim s = trimEnd (trimStart s)"

text \<open>
  The functions that walk through a text choose their next step by the equation that
  fits, so that they can be evaluated on long texts.
\<close>

text \<open>\<open>s.startsWith(pre)\<close>: the second function goes on after the comparison of two characters.\<close>

fun startsWith :: "string \<Rightarrow> string \<Rightarrow> bool"
  and startsWith_rest :: "bool \<Rightarrow> string \<Rightarrow> string \<Rightarrow> bool" where
  "startsWith s [] = True"
| "startsWith [] (c # cs) = False"
| "startsWith (x # xs) (c # cs) = startsWith_rest (x = c) xs cs"
| "startsWith_rest True xs cs = startsWith xs cs"
| "startsWith_rest False xs cs = False"

definition endsWith :: "string \<Rightarrow> string \<Rightarrow> bool" where
  "endsWith s suf = (drop (length s - length suf) s = suf)"

text \<open>\<open>s.includes(sub)\<close>: the second function goes on after the test at one position.\<close>

function str_includes :: "string \<Rightarrow> string \<Rightarrow> bool"
  and includes_after :: "bool \<Rightarrow> string \<Rightarrow> string \<Rightarrow> bool" where
  "str_includes s sub = includes_after (startsWith s sub) s sub"
| "includes_after True s sub = True"
| "includes_after False [] sub = False"
| "includes_after False (x # xs) sub = str_includes xs sub"
  by pat_completeness auto
termination
  by (relation "measure (\<lambda>a. case a of Inl (s, sub) \<Rightarrow> 2 * length s + 1 | Inr (b, s, sub) \<Rightarrow> 2 * length s)")
     auto

declare str_includes.simps [simp del]

text \<open>\<open>s.substring(a, b)\<close> for \<open>a \<le> b\<close>, \<open>s.substring(a)\<close> and \<open>s.slice(-n)\<close>.\<close>

definition substring :: "string \<Rightarrow> nat \<Rightarrow> nat \<Rightarrow> string" where
  "substring s a b = (if a \<le> b then take (b - a) (drop a s) else take (a - b) (drop b s))"

definition substring_from :: "string \<Rightarrow> nat \<Rightarrow> string" where
  "substring_from s a = drop a s"

definition slice_last :: "string \<Rightarrow> nat \<Rightarrow> string" where
  "slice_last s n = drop (length s - n) s"

text \<open>\<open>s.split('\n')\<close> and \<open>lines.join(sep)\<close>.\<close>

fun add_char :: "bool \<Rightarrow> char \<Rightarrow> string list \<Rightarrow> string list" where
  "add_char True x ls = [] # ls"
| "add_char False x [] = [[x]]"
| "add_char False x (l # ls) = (x # l) # ls"

fun split_lines :: "string \<Rightarrow> string list" where
  "split_lines [] = [[]]"
| "split_lines (x # xs) = add_char (x = CHR 0x0A) x (split_lines xs)"

fun join :: "string \<Rightarrow> string list \<Rightarrow> string" where
  "join sep [] = []"
| "join sep [l] = l"
| "join sep (l # l' # ls) = l @ sep @ join sep (l' # ls)"

section \<open>Regular expressions\<close>

text \<open>
  The regular expressions of the source are kept as syntax trees and run by a
  backtracking matcher that returns every way to match at a position, in the order in
  which a backtracking engine tries them: the first result is the match that
  JavaScript reports. A matcher state is the text before the position (reversed), the
  text from the position on, and the groups captured so far.
\<close>

datatype citem = Ch char | Rng char char | ClsD | ClsW | ClsS | ClsNS

fun in_item :: "char \<Rightarrow> citem \<Rightarrow> bool" where
  "in_item c (Ch x) = (c = x)"
| "in_item c (Rng a b) = (a \<le> c \<and> c \<le> b)"
| "in_item c ClsD = is_digit c"
| "in_item c ClsW = is_word c"
| "in_item c ClsS = is_space c"
| "in_item c ClsNS = (\<not> is_space c)"

text \<open>With the flag \<open>i\<close> a character is in a class when one of its two cases is.\<close>

fun in_item_ic :: "bool \<Rightarrow> char \<Rightarrow> citem \<Rightarrow> bool" where
  "in_item_ic False c i = in_item c i"
| "in_item_ic True c i = (in_item c i \<or> in_item (to_upper c) i \<or> in_item (to_lower c) i)"

fun in_class :: "bool \<Rightarrow> citem list \<Rightarrow> char \<Rightarrow> bool" where
  "in_class ic [] c = False"
| "in_class ic (i # items) c = (in_item_ic ic c i \<or> in_class ic items c)"

datatype re =
    Eps
  | Lit string
  | Cls "citem list"
  | NCls "citem list"
  | Dot
  | Seq re re
  | Alt re re
  | Star re
  | StarL re
  | Grp nat re
  | Bol
  | Eol
  | WordB
  | Ahead re
  | NAhead re
  | NBehind string

text \<open>
  A captured group is kept as the text before its start and the text before its end
  (both reversed); its own text is what lies between them.
\<close>

type_synonym caps = "(nat \<times> string \<times> string) list"
type_synonym mstate = "string \<times> string \<times> caps"


text \<open>Equality of two texts, decided at the first difference.\<close>

fun same_text :: "string \<Rightarrow> string \<Rightarrow> bool"
  and same_rest :: "bool \<Rightarrow> string \<Rightarrow> string \<Rightarrow> bool" where
  "same_text [] [] = True"
| "same_text [] (y # ys) = False"
| "same_text (x # xs) [] = False"
| "same_text (x # xs) (y # ys) = same_rest (x = y) xs ys"
| "same_rest True xs ys = same_text xs ys"
| "same_rest False xs ys = False"

text \<open>
  The text between two positions, from the texts before them (reversed): the
  characters of \<open>p'\<close> before its suffix \<open>p\<close>, in the order of the text.
\<close>

function before_suffix :: "string \<Rightarrow> string \<Rightarrow> string"
  and before_on :: "bool \<Rightarrow> string \<Rightarrow> string \<Rightarrow> string" where
  "before_suffix xs suf = before_on (same_text xs suf) xs suf"
| "before_on True xs suf = []"
| "before_on False [] suf = []"
| "before_on False (x # xs) suf = x # before_suffix xs suf"
  by pat_completeness auto
termination
  by (relation "measure (\<lambda>a. case a of Inl (xs, suf) \<Rightarrow> 2 * length xs + 1 | Inr (b, xs, suf) \<Rightarrow> 2 * length xs)")
     auto

declare before_suffix.simps [simp del]

definition matched :: "string \<Rightarrow> string \<Rightarrow> string" where
  "matched p p' = rev (before_suffix p' p)"

fun same_char :: "bool \<Rightarrow> char \<Rightarrow> char \<Rightarrow> bool" where
  "same_char False a b = (a = b)"
| "same_char True a b = (to_upper a = to_upper b)"

fun lit_match :: "bool \<Rightarrow> string \<Rightarrow> string \<Rightarrow> string \<Rightarrow> (string \<times> string) option"
  and lit_rest :: "bool \<Rightarrow> bool \<Rightarrow> string \<Rightarrow> string \<Rightarrow> string \<Rightarrow> (string \<times> string) option" where
  "lit_match ic [] p s = Some (p, s)"
| "lit_match ic (c # cs) p [] = None"
| "lit_match ic (c # cs) p (x # xs) = lit_rest (same_char ic c x) ic cs (x # p) xs"
| "lit_rest True ic cs p s = lit_match ic cs p s"
| "lit_rest False ic cs p s = None"

text \<open>
  The only lookbehind of the source is \<open>(?<!React\.)\<close>, a negative one on a literal: it
  holds where the text before the position does not end with the literal.
\<close>

definition ends_with_lit :: "bool \<Rightarrow> string \<Rightarrow> string \<Rightarrow> bool" where
  "ends_with_lit ic p cs = (lit_match ic (rev cs) [] p \<noteq> None)"

text \<open>The small steps of the matcher.\<close>

fun one_if :: "bool \<Rightarrow> mstate \<Rightarrow> mstate list" where
  "one_if True st = [st]"
| "one_if False st = []"

fun lit_states :: "caps \<Rightarrow> (string \<times> string) option \<Rightarrow> mstate list" where
  "lit_states c None = []"
| "lit_states c (Some (p', s')) = [(p', s', c)]"

fun close_group :: "nat \<Rightarrow> string \<Rightarrow> mstate \<Rightarrow> mstate" where
  "close_group n p (p', s', c') = (p', s', (n, p, p') # c')"

fun at_line_edge :: "bool \<Rightarrow> string \<Rightarrow> bool" where
  "at_line_edge ml [] = True"
| "at_line_edge ml (x # xs) = (ml \<and> is_line_term x)"

fun word_at :: "string \<Rightarrow> bool" where
  "word_at [] = False"
| "word_at (x # xs) = is_word x"

fun ahead :: "string \<Rightarrow> string \<Rightarrow> mstate list \<Rightarrow> mstate list" where
  "ahead p s [] = []"
| "ahead p s ((p', s', c') # rest) = [(p, s, c')]"

fun nahead :: "mstate \<Rightarrow> mstate list \<Rightarrow> mstate list" where
  "nahead st [] = [st]"
| "nahead st (x # rest) = []"

text \<open>
  A round of a quantified atom that consumes nothing (it ends where it started) is
  dropped, as in JavaScript.
\<close>

fun keep_if :: "bool \<Rightarrow> mstate \<Rightarrow> mstate list \<Rightarrow> mstate list" where
  "keep_if True st sts = st # sts"
| "keep_if False st sts = sts"

fun progress :: "string \<Rightarrow> mstate list \<Rightarrow> mstate list" where
  "progress s [] = []"
| "progress s ((p', s', c') # sts) = keep_if (\<not> same_text s' s) (p', s', c') (progress s sts)"

text \<open>Greedy iteration tries one more round before stopping, lazy iteration stops first.\<close>

fun in_order :: "bool \<Rightarrow> mstate list \<Rightarrow> mstate \<Rightarrow> mstate list" where
  "in_order True further st = further @ [st]"
| "in_order False further st = st # further"

text \<open>
  \<open>mt ic ml r p s c\<close> are the states after a match of \<open>r\<close> from the state \<open>(p, s, c)\<close>, with
  the flags \<open>i\<close> and \<open>m\<close>; \<open>mt_all\<close> matches from each state of a list. \<open>iter\<close> is the
  iteration of a quantified atom; as a round consumes at least one character, the
  rounds are bounded by the remaining text, which is its argument \<open>fuel\<close>.
\<close>

function mt :: "bool \<Rightarrow> bool \<Rightarrow> re \<Rightarrow> string \<Rightarrow> string \<Rightarrow> caps \<Rightarrow> mstate list"
  and mt_all :: "bool \<Rightarrow> bool \<Rightarrow> re \<Rightarrow> mstate list \<Rightarrow> mstate list"
  and iter :: "bool \<Rightarrow> bool \<Rightarrow> re \<Rightarrow> bool \<Rightarrow> string \<Rightarrow> string \<Rightarrow> string \<Rightarrow> caps \<Rightarrow> mstate list"
  and iter_all :: "bool \<Rightarrow> bool \<Rightarrow> re \<Rightarrow> bool \<Rightarrow> string \<Rightarrow> mstate list \<Rightarrow> mstate list" where
  "mt ic ml Eps p s c = [(p, s, c)]"
| "mt ic ml (Lit cs) p s c = lit_states c (lit_match ic cs p s)"
| "mt ic ml (Cls items) p [] c = []"
| "mt ic ml (Cls items) p (x # xs) c = one_if (in_class ic items x) (x # p, xs, c)"
| "mt ic ml (NCls items) p [] c = []"
| "mt ic ml (NCls items) p (x # xs) c = one_if (\<not> in_class ic items x) (x # p, xs, c)"
| "mt ic ml Dot p [] c = []"
| "mt ic ml Dot p (x # xs) c = one_if (\<not> is_line_term x) (x # p, xs, c)"
| "mt ic ml (Seq a b) p s c = mt_all ic ml b (mt ic ml a p s c)"
| "mt ic ml (Alt a b) p s c = mt ic ml a p s c @ mt ic ml b p s c"
| "mt ic ml (Star r) p s c = iter ic ml r True s p s c"
| "mt ic ml (StarL r) p s c = iter ic ml r False s p s c"
| "mt ic ml (Grp n r) p s c = map (close_group n p) (mt ic ml r p s c)"
| "mt ic ml Bol p s c = one_if (at_line_edge ml p) (p, s, c)"
| "mt ic ml Eol p s c = one_if (at_line_edge ml s) (p, s, c)"
| "mt ic ml WordB p s c = one_if (word_at p \<noteq> word_at s) (p, s, c)"
| "mt ic ml (Ahead r) p s c = ahead p s (mt ic ml r p s c)"
| "mt ic ml (NAhead r) p s c = nahead (p, s, c) (mt ic ml r p s c)"
| "mt ic ml (NBehind cs) p s c = one_if (\<not> ends_with_lit ic p cs) (p, s, c)"
| "mt_all ic ml r [] = []"
| "mt_all ic ml r ((p, s, c) # sts) = mt ic ml r p s c @ mt_all ic ml r sts"
| "iter ic ml r greedy [] p s c = [(p, s, c)]"
| "iter ic ml r greedy (f # fuel) p s c =
     in_order greedy (iter_all ic ml r greedy fuel (progress s (mt ic ml r p s c))) (p, s, c)"
| "iter_all ic ml r greedy fuel [] = []"
| "iter_all ic ml r greedy fuel ((p, s, c) # sts) =
     iter ic ml r greedy fuel p s c @ iter_all ic ml r greedy fuel sts"
  by pat_completeness auto
termination
  by (relation "inv_image (less_than <*lex*> less_than <*lex*> less_than)
        (\<lambda>a. case a of
           Inl (Inl (ic, ml, r, p, s, c)) \<Rightarrow> (size r, 0, 0)
         | Inl (Inr (ic, ml, r, sts)) \<Rightarrow> (size r, 0, Suc (length sts))
         | Inr (Inl (ic, ml, r, g, fuel, p, s, c)) \<Rightarrow> (size r, Suc (length fuel), 0)
         | Inr (Inr (ic, ml, r, g, fuel, sts)) \<Rightarrow> (size r, Suc (length fuel), Suc (length sts)))")
     auto

text \<open>Concatenation of several parts, and the quantifiers \<open>+\<close>, \<open>+?\<close>, \<open>?\<close> and \<open>{2,}\<close>.\<close>

definition cat :: "re list \<Rightarrow> re" where
  "cat rs = foldr Seq rs Eps"

definition Plus :: "re \<Rightarrow> re" where
  "Plus r = Seq r (Star r)"

definition PlusL :: "re \<Rightarrow> re" where
  "PlusL r = Seq r (StarL r)"

definition Opt :: "re \<Rightarrow> re" where
  "Opt r = Alt r Eps"

definition Rep2 :: "re \<Rightarrow> re" where
  "Rep2 r = Seq r (Seq r (Star r))"

text \<open>A regular expression literal \<open>/pat/flags\<close>.\<close>

record regex =
  pat :: re
  flags :: string

definition rx :: "re \<Rightarrow> string \<Rightarrow> regex" where
  "rx r fl = \<lparr>pat = r, flags = fl\<rparr>"

text \<open>The flags \<open>i\<close> and \<open>m\<close> of a regular expression.\<close>

definition ignoreCase :: "regex \<Rightarrow> bool" where
  "ignoreCase r = (CHR ''i'' \<in> set (flags r))"

definition multiline :: "regex \<Rightarrow> bool" where
  "multiline r = (CHR ''m'' \<in> set (flags r))"

text \<open>The match at a position: the first way to match there.\<close>

fun first_state :: "mstate list \<Rightarrow> mstate option" where
  "first_state [] = None"
| "first_state (st # rest) = Some st"

definition match_at :: "bool \<Rightarrow> bool \<Rightarrow> re \<Rightarrow> string \<Rightarrow> string \<Rightarrow> mstate option" where
  "match_at ic ml r p s = first_state (mt ic ml r p s [])"

text \<open>The text of group \<open>n\<close> of a match.\<close>

fun grp :: "caps \<Rightarrow> nat \<Rightarrow> string" where
  "grp [] n = []"
| "grp ((k, p, p') # c) n = (if k = n then matched p p' else grp c n)"

text \<open>
  The leftmost match at or after a position: the text before the match (reversed),
  the matched text and the state after the match.
\<close>

function search :: "bool \<Rightarrow> bool \<Rightarrow> re \<Rightarrow> string \<Rightarrow> string \<Rightarrow> (string \<times> string \<times> mstate) option"
  and search_on :: "mstate option \<Rightarrow> bool \<Rightarrow> bool \<Rightarrow> re \<Rightarrow> string \<Rightarrow> string \<Rightarrow> (string \<times> string \<times> mstate) option" where
  "search ic ml r p s = search_on (match_at ic ml r p s) ic ml r p s"
| "search_on (Some (p', s', c)) ic ml r p s = Some (p, matched p p', (p', s', c))"
| "search_on None ic ml r p [] = None"
| "search_on None ic ml r p (x # xs) = search ic ml r (x # p) xs"
  by pat_completeness auto
termination
  by (relation "measure (\<lambda>a. case a of Inl (ic, ml, r, p, s) \<Rightarrow> 2 * length s + 1
                                    | Inr (m, ic, ml, r, p, s) \<Rightarrow> 2 * length s)")
     auto

declare search.simps [simp del]

definition search_from :: "regex \<Rightarrow> string \<Rightarrow> string \<Rightarrow> (string \<times> string \<times> mstate) option" where
  "search_from r p s = search (ignoreCase r) (multiline r) (pat r) p s"

text \<open>\<open>re.test(s)\<close> (every regular expression of the source is tested from index 0).\<close>

definition re_test :: "regex \<Rightarrow> string \<Rightarrow> bool" where
  "re_test r s = (search_from r [] s \<noteq> None)"

text \<open>
  The successive matches of a global regular expression, as \<open>replace\<close>, \<open>match\<close>,
  \<open>matchAll\<close> and an \<open>exec\<close> loop find them: the text is cut into the characters
  outside every match and the matches. After an empty match the search moves one
  character on.
\<close>

datatype seg = Keep char | Hit string caps

function scan :: "bool \<Rightarrow> bool \<Rightarrow> re \<Rightarrow> string \<Rightarrow> string \<Rightarrow> seg list"
  and scan_on :: "mstate option \<Rightarrow> bool \<Rightarrow> bool \<Rightarrow> re \<Rightarrow> string \<Rightarrow> string \<Rightarrow> seg list"
  and scan_step :: "bool \<Rightarrow> bool \<Rightarrow> re \<Rightarrow> string \<Rightarrow> string \<Rightarrow> seg list" where
  "scan ic ml r p s = scan_on (match_at ic ml r p s) ic ml r p s"
| "scan_on None ic ml r p s = scan_step ic ml r p s"
| "scan_on (Some (p', s', c)) ic ml r p s =
     Hit (matched p p') c # (if length s' < length s then scan ic ml r p' s' else scan_step ic ml r p s)"
| "scan_step ic ml r p [] = []"
| "scan_step ic ml r p (x # xs) = Keep x # scan ic ml r (x # p) xs"
  by pat_completeness auto
termination
  by (relation "measure (\<lambda>a. case a of
          Inl (ic, ml, r, p, s) \<Rightarrow> 3 * length s + 2
        | Inr (Inl (m, ic, ml, r, p, s)) \<Rightarrow> 3 * length s + 1
        | Inr (Inr (ic, ml, r, p, s)) \<Rightarrow> 3 * length s)")
     auto

declare scan.simps [simp del]

definition segments :: "regex \<Rightarrow> string \<Rightarrow> string \<Rightarrow> seg list" where
  "segments r p s = scan (ignoreCase r) (multiline r) (pat r) p s"

fun seg_text :: "(string \<Rightarrow> caps \<Rightarrow> string) \<Rightarrow> seg \<Rightarrow> string" where
  "seg_text f (Keep x) = [x]"
| "seg_text f (Hit m c) = f m c"

definition replace_first :: "regex \<Rightarrow> (string \<Rightarrow> caps \<Rightarrow> string) \<Rightarrow> string \<Rightarrow> string" where
  "replace_first r f s = (case search_from r [] s of None \<Rightarrow> s
      | Some (p, m, (p', s', c)) \<Rightarrow> rev p @ f m c @ s')"

text \<open>\<open>s.replace(re, f)\<close>: every match with the flag \<open>g\<close>, the first one without.\<close>

definition replace :: "regex \<Rightarrow> (string \<Rightarrow> caps \<Rightarrow> string) \<Rightarrow> string \<Rightarrow> string" where
  "replace r f s =
     (if CHR ''g'' \<in> set (flags r) then concat (map (seg_text f) (segments r [] s))
      else replace_first r f s)"

text \<open>The matches of a global regular expression with their indices (an \<open>exec\<close> loop).\<close>

fun hits_at :: "nat \<Rightarrow> seg list \<Rightarrow> (nat \<times> string \<times> caps) list" where
  "hits_at i [] = []"
| "hits_at i (Keep x # segs) = hits_at (Suc i) segs"
| "hits_at i (Hit m c # segs) = (i, m, c) # hits_at (i + length m) segs"

definition exec_all :: "regex \<Rightarrow> string \<Rightarrow> (nat \<times> string \<times> caps) list" where
  "exec_all r s = hits_at 0 (segments r [] s)"

text \<open>\<open>(s.match(re) || []).length\<close> for a global regular expression.\<close>

definition match_count :: "regex \<Rightarrow> string \<Rightarrow> nat" where
  "match_count r s = length (exec_all r s)"

section \<open>GeminiCodeFixer\<close>

text \<open>Single characters that a string literal cannot hold.\<close>

definition bq :: string where
  "bq = [CHR 0x60]"

definition sq :: string where
  "sq = [CHR 0x27]"

definition dq :: string where
  "dq = [CHR 0x22]"

definition bsl :: string where
  "bsl = [CHR 0x5C]"

definition nl :: string where
  "nl = [CHR 0x0A]"

text \<open>
  An entry of \<open>errorPatterns\<close>: its name, its pattern and its \<open>fix\<close> function, which gets the
  matched text and the groups.
\<close>

record ErrorPattern =
  name :: string
  pattern :: regex
  fix_fn :: "string \<Rightarrow> caps \<Rightarrow> string"

definition percent_outside_backticks :: ErrorPattern where
  \<open>percent_outside_backticks = \<lparr>
     name = ''percent_outside_backticks'',
     pattern = rx (cat [Lit ''`${'', Grp 1 (Plus (NCls [Ch CHR ''}''])), Lit ''}`'', Grp 2 (Cls [Ch CHR ''%''])]) ''g'',
     fix_fn = (\<lambda>m c. ''`${'' @ grp c 1 @ ''}'' @ grp c 2 @ ''`'') \<rparr>\<close>

definition px_outside_backticks :: ErrorPattern where
  \<open>px_outside_backticks = \<lparr>
     name = ''px_outside_backticks'',
     pattern = rx (cat [Lit ''`${'', Grp 1 (Plus (NCls [Ch CHR ''}''])), Lit ''}`'',
                  Grp 2 (Alt (Lit ''px'') (Alt (Lit ''rem'') (Alt (Lit ''em'') (Alt (Lit ''vh'') (Lit ''vw'')))))]) ''g'',
     fix_fn = (\<lambda>m c. ''`${'' @ grp c 1 @ ''}'' @ grp c 2 @ ''`'') \<rparr>\<close>

definition className_missing_backticks :: ErrorPattern where
  \<open>className_missing_backticks = \<lparr>
     name = ''className_missing_backticks'',
     pattern = rx (cat [Lit ''className={'',
                  Grp 1 (cat [NCls [Ch (CHR 0x60), Ch CHR ''{''], StarL (NCls [Ch CHR ''}'']), Lit ''${'',
                              Star (NCls [Ch CHR ''}'']), Lit ''}'', StarL (NCls [Ch CHR ''}''])]),
                  Lit ''}'']) ''g'',
     fix_fn = (\<lambda>m c. if str_includes (grp c 1) ''`'' then m else ''className={`'' @ grp c 1 @ ''`}'') \<rparr>\<close>

definition jsx_text_with_interpolation :: ErrorPattern where
  \<open>jsx_text_with_interpolation = \<lparr>
     name = ''jsx_text_with_interpolation'',
     pattern = rx (cat [Lit ''>'',
                  Grp 1 (cat [Plus (NCls [Ch CHR ''<'', Ch CHR ''{'']), Lit ''${'', Plus (NCls [Ch CHR ''}'']),
                              Lit ''}'', Star (NCls [Ch CHR ''<'', Ch CHR ''{''])]),
                  Lit ''<'']) ''g'',
     fix_fn = (\<lambda>m c. if str_includes (grp c 1) ''`'' \<or> trim (grp c 1) = [] then m
                   else ''>{`'' @ trim (grp c 1) @ ''`}<'') \<rparr>\<close>

definition jsx_curly_brace_template_literal :: ErrorPattern where
  \<open>jsx_curly_brace_template_literal = \<lparr>
     name = ''jsx_curly_brace_template_literal'',
     pattern = rx (cat [Lit ''className={'',
                  Grp 1 (cat [NCls [Ch (CHR 0x60)], Star (NCls [Ch CHR ''}'']), Lit ''${'',
                              StarL (NCls [Ch CHR ''}'']), Lit ''}'', Star (NCls [Ch CHR ''}''])]),
                  Lit ''}'']) ''g'',
     fix_fn = (\<lambda>m c. if str_includes (grp c 1) ''`'' then m else ''className={`'' @ grp c 1 @ ''`}'') \<rparr>\<close>

definition identifier_with_backtick_interpolation :: ErrorPattern where
  \<open>identifier_with_backtick_interpolation = \<lparr>
     name = ''identifier_with_backtick_interpolation'',
     pattern = rx (cat [Grp 1 (cat [Cls [Rng CHR ''A'' CHR ''Z''],
                                    Star (Cls [Rng CHR ''a'' CHR ''z'', Rng CHR ''A'' CHR ''Z''])]),
                  Lit ''`${'', Grp 2 (Plus (NCls [Ch CHR ''}''])), Lit ''}`'']) ''g'',
     fix_fn = (\<lambda>m c. ''`'' @ grp c 1 @ ''${'' @ grp c 2 @ ''}`'') \<rparr>\<close>

definition ternary_missing_backticks :: ErrorPattern where
  \<open>ternary_missing_backticks = \<lparr>
     name = ''ternary_missing_backticks'',
     pattern = rx (cat [Lit ''?'', Star (Cls [ClsS]),
                  Grp 1 (cat [NCls [Ch (CHR 0x60), Ch (CHR 0x27), Ch (CHR 0x22), Ch CHR ''{'', Ch CHR ''}'', ClsS],
                              Star (NCls [Ch CHR '':'']), Lit ''${'', Plus (NCls [Ch CHR ''}'']), Lit ''}'',
                              Star (NCls [Ch CHR '':''])]),
                  Star (Cls [ClsS]), Lit '':'']) ''g'',
     fix_fn = (\<lambda>m c. if str_includes (grp c 1) ''`'' then m else ''? `'' @ grp c 1 @ ''` :'') \<rparr>\<close>

definition style_value_missing_backticks :: ErrorPattern where
  \<open>style_value_missing_backticks = \<lparr>
     name = ''style_value_missing_backticks'',
     pattern = rx (cat [Lit ''style={{'', Grp 1 (Plus (NCls [Ch CHR ''}''])), Lit ''}}'']) ''g'',
     fix_fn = (\<lambda>m c. ''style={{'' @
              replace (rx (cat [Grp 1 (Plus (Cls [ClsW])), Lit '':'', Star (Cls [ClsS]),
                          Grp 2 (cat [NCls [Ch (CHR 0x60), Ch (CHR 0x27), Ch (CHR 0x22), Ch CHR '','', Ch CHR ''{'', Ch CHR ''}''],
                                      StarL (NCls [Ch CHR '','', Ch CHR ''}'']), Lit ''${'',
                                      StarL (NCls [Ch CHR ''}'']), Lit ''}'',
                                      StarL (NCls [Ch CHR '','', Ch CHR ''}''])]),
                          Ahead (Cls [Ch CHR '','', Ch CHR ''}''])]) ''g'')
                (\<lambda>m' c'. if str_includes (grp c' 2) ''`'' then m' else grp c' 1 @ '': `'' @ trim (grp c' 2) @ ''`'')
                (grp c 1)
              @ ''}}'') \<rparr>\<close>

definition ident_start :: "citem list" where
  "ident_start = [Rng CHR ''a'' CHR ''z'', Rng CHR ''A'' CHR ''Z'', Ch CHR ''_'', Ch CHR ''$'']"

definition missing_multiplication_after_random :: ErrorPattern where
  \<open>missing_multiplication_after_random = \<lparr>
     name = ''missing_multiplication_after_random'',
     pattern = rx (cat [Lit ''Math.random()'', Plus (Cls [ClsS]),
                  Grp 1 (cat [Cls ident_start,
                              Star (Cls [ClsW, Ch CHR ''$'', Ch CHR ''.'', Ch CHR ''['', Ch CHR '']''])])]) ''g'',
     fix_fn = (\<lambda>m c. ''Math.random() * '' @ grp c 1) \<rparr>\<close>

definition missing_multiplication_after_paren :: ErrorPattern where
  \<open>missing_multiplication_after_paren = \<lparr>
     name = ''missing_multiplication_after_paren'',
     pattern = rx (cat [Lit '')'', Rep2 (Cls [ClsS]), Grp 1 (Plus (Cls [ClsD]))]) ''g'',
     fix_fn = (\<lambda>m c. '') * '' @ grp c 1) \<rparr>\<close>

definition missing_multiplication_decimals :: ErrorPattern where
  \<open>missing_multiplication_decimals = \<lparr>
     name = ''missing_multiplication_decimals'',
     pattern = rx (cat [Grp 1 (cat [Plus (Cls [ClsD]), Lit ''.'', Plus (Cls [ClsD])]), Rep2 (Cls [ClsS]),
                  Grp 2 (cat [Cls ident_start, Star (Cls [ClsW])])]) ''g'',
     fix_fn = (\<lambda>m c. grp c 1 @ '' * '' @ grp c 2) \<rparr>\<close>

definition missing_multiplication_identifier_number :: ErrorPattern where
  \<open>missing_multiplication_identifier_number = \<lparr>
     name = ''missing_multiplication_identifier_number'',
     pattern = rx (cat [Grp 1 (cat [Cls ident_start, Star (Cls [ClsW])]), Rep2 (Cls [ClsS]),
                  Grp 2 (Plus (Cls [ClsD])), NAhead (Cls [ClsW])]) ''g'',
     fix_fn = (\<lambda>m c. grp c 1 @ '' * '' @ grp c 2) \<rparr>\<close>

definition missing_operator_array_access :: ErrorPattern where
  \<open>missing_operator_array_access = \<lparr>
     name = ''missing_operator_array_access'',
     pattern = rx (cat [Lit ''['', Grp 1 (cat [Cls ident_start, Star (Cls [ClsW])]), Rep2 (Cls [ClsS]),
                  Grp 2 (Plus (Cls [ClsD])), Lit '']'']) ''g'',
     fix_fn = (\<lambda>m c. ''['' @ grp c 1 @ '' * '' @ grp c 2 @ '']'') \<rparr>\<close>

definition broken_jsx_comment :: ErrorPattern where
  \<open>broken_jsx_comment = \<lparr>
     name = ''broken_jsx_comment'',
     pattern = rx (cat [Lit ''{/'', Star (Cls [ClsS]), Grp 1 (StarL Dot), Star (Cls [ClsS]), Lit ''/}'']) ''g'',
     fix_fn = (\<lambda>m c. ''{/* '' @ grp c 1 @ '' */}'') \<rparr>\<close>

definition jsx_expression_missing_braces :: ErrorPattern where
  \<open>jsx_expression_missing_braces = \<lparr>
     name = ''jsx_expression_missing_braces'',
     pattern = rx (cat [Lit ''='', Star (Cls [ClsS]),
                  Grp 1 (cat [NCls [Ch CHR ''{'', Ch (CHR 0x22)], Star (NCls [Ch CHR ''='', ClsS, Ch CHR ''>'']),
                              Lit ''${'', Plus (NCls [Ch CHR ''}'']), Lit ''}'',
                              Star (NCls [Ch (CHR 0x22), ClsS, Ch CHR ''>''])]),
                  Star (Cls [ClsS]), Ahead (Cls [Ch CHR ''>'', Ch CHR ''/''])]) ''g'',
     fix_fn = (\<lambda>m c. if startsWith (grp c 1) ''{'' then m else ''={`'' @ grp c 1 @ ''`}'') \<rparr>\<close>

definition missing_space_before_static_class :: ErrorPattern where
  \<open>missing_space_before_static_class = \<lparr>
     name = ''missing_space_before_static_class'',
     pattern = rx (cat [Grp 1 (cat [Lit ''${'', Plus (NCls [Ch CHR ''}'']), Lit ''}'']),
                  Grp 2 (Cls [Rng CHR ''a'' CHR ''z'', Rng CHR ''A'' CHR ''Z''])]) ''g'',
     fix_fn = (\<lambda>m c. grp c 1 @ '' '' @ grp c 2) \<rparr>\<close>

definition undefined_React :: ErrorPattern where
  \<open>undefined_React = \<lparr>
     name = ''undefined_React'',
     pattern = rx (cat [NBehind ''React.'', WordB,
                  Grp 1 (Alt (Lit ''useState'') (Alt (Lit ''useEffect'') (Alt (Lit ''useCallback'')
                         (Alt (Lit ''useMemo'') (Lit ''useRef''))))),
                  Lit ''(''] ) ''g'',
     fix_fn = (\<lambda>m c. ''React.'' @ grp c 1 @ ''('') \<rparr>\<close>

definition incorrect_fragment :: ErrorPattern where
  \<open>incorrect_fragment = \<lparr>
     name = ''incorrect_fragment'',
     pattern = rx (cat [Lit ''<>'', Star (Cls [ClsS]), Lit ''</>'']) ''g'',
     fix_fn = (\<lambda>m c. ''<React.Fragment></React.Fragment>'') \<rparr>\<close>

definition errorPatterns :: "ErrorPattern list" where
  "errorPatterns =
     [percent_outside_backticks, px_outside_backticks, className_missing_backticks,
      jsx_text_with_interpolation, jsx_curly_brace_template_literal,
      identifier_with_backtick_interpolation, ternary_missing_backticks,
      style_value_missing_backticks,
      missing_multiplication_after_random, missing_multiplication_after_paren,
      missing_multiplication_decimals, missing_multiplication_identifier_number,
      missing_operator_array_access,
      broken_jsx_comment, jsx_expression_missing_braces, missing_space_before_static_class,
      undefined_React, incorrect_fragment]"

text \<open>
  The loop of \<open>fixCode\<close> over \<open>errorPatterns\<close>: each pattern is applied once, in order,
  to the text the earlier ones produced.
\<close>

definition applyPatterns :: "ErrorPattern list \<Rightarrow> string \<Rightarrow> string" where
  "applyPatterns ps code = foldl (\<lambda>fixedCode e. replace (pattern e) (fix_fn e) fixedCode) code ps"

subsection \<open>Context-aware fixes\<close>

text \<open>
  The loop of \<open>fixComplexClassName\<close> that removes nested backticks runs while the text
  has a backtick and a backtick followed by \<open>${\<close>; nothing bounds it, so it is a partial
  function: \<open>None\<close> is a loop that never ends.
\<close>

definition unnest_step :: "string \<Rightarrow> string" where
  \<open>unnest_step fixed =
     replace (rx (cat [Lit ''}`'', Grp 1 (Star (NCls [Ch (CHR 0x60)])), Lit ''`'']) ''g'')
             (\<lambda>m c. ''}'' @ grp c 1)
       (replace (rx (cat [Lit ''`'', Grp 1 (Star (NCls [Ch (CHR 0x60)])), Lit ''`${'']) ''g'')
                (\<lambda>m c. ''`'' @ grp c 1 @ ''${'') fixed)\<close>

partial_function (option) unnest_loop :: "string \<Rightarrow> string option" where
  "unnest_loop fixed =
     (if str_includes fixed ''`'' \<and> str_includes fixed ''`${'' then unnest_loop (unnest_step fixed)
      else Some fixed)"

declare unnest_loop.simps [code]

text \<open>A replacement whose callback may not return.\<close>

fun replace_segs_opt :: "(string \<Rightarrow> caps \<Rightarrow> string option) \<Rightarrow> seg list \<Rightarrow> string option" where
  "replace_segs_opt f [] = Some []"
| "replace_segs_opt f (Keep x # segs) = map_option ((#) x) (replace_segs_opt f segs)"
| "replace_segs_opt f (Hit m c # segs) =
     (case f m c of None \<Rightarrow> None | Some t \<Rightarrow> map_option ((@) t) (replace_segs_opt f segs))"

definition classNameRegex :: regex where
  \<open>classNameRegex =
     rx (cat [Lit ''className={'',
              Grp 1 (cat [Plus (NCls [Ch CHR ''}'']),
                          Star (cat [Lit ''{'', Star (NCls [Ch CHR ''}'']), Lit ''}'', Star (NCls [Ch CHR ''}''])])]),
              Lit ''}'']) ''g''\<close>

definition fixComplexClassName :: "string \<Rightarrow> string option" where
  \<open>fixComplexClassName code =
     replace_segs_opt
       (\<lambda>m c. if str_includes (grp c 1) ''${'' \<and> \<not> str_includes (grp c 1) ''`''
               then Some (''className={`'' @ grp c 1 @ ''`}'')
               else (case unnest_loop (grp c 1) of
                       None \<Rightarrow> None
                     | Some fixed \<Rightarrow> Some (if fixed \<noteq> grp c 1 then ''className={'' @ fixed @ ''}'' else m)))
       (segments classNameRegex [] code)\<close>

text \<open>\<open>parseStyleProperties\<close>: the name and the trimmed value of every property.\<close>

definition parseStyleProperties :: "string \<Rightarrow> (string \<times> string) list" where
  \<open>parseStyleProperties styleContent =
     map (\<lambda>(i, m, c). (grp c 1, trim (grp c 2)))
       (exec_all (rx (cat [Grp 1 (Plus (Cls [ClsW])), Lit '':'', Star (Cls [ClsS]),
                           Grp 2 (Plus (NCls [Ch CHR '','', Ch CHR ''}'']))]) ''g'') styleContent)\<close>

definition styleRegex :: regex where
  \<open>styleRegex =
     rx (cat [Lit ''style={{'',
              Grp 1 (cat [Plus (NCls [Ch CHR ''}'']),
                          Star (cat [Lit ''{'', Star (NCls [Ch CHR ''}'']), Lit ''}'', Star (NCls [Ch CHR ''}''])])]),
              Lit ''}}'']) ''g''\<close>

definition fixComplexStyleObjects :: "string \<Rightarrow> string" where
  \<open>fixComplexStyleObjects code =
     replace styleRegex
       (\<lambda>m c. ''style={{'' @
                join '', '' (map (\<lambda>(pname, pvalue).
                               if str_includes pvalue ''${'' \<and> \<not> startsWith pvalue ''`''
                               then pname @ '': `'' @ pvalue @ ''`''
                               else pname @ '': '' @ pvalue)
                          (parseStyleProperties (grp c 1)))
                @ ''}}'')
       code\<close>

definition fixMixedJSXChildren :: "string \<Rightarrow> string" where
  \<open>fixMixedJSXChildren code =
     replace (rx (cat [Lit ''>'', Grp 1 (Plus (NCls [Ch CHR ''<''])), Lit ''<'']) ''g'')
       (\<lambda>m c. if str_includes (grp c 1) ''${'' \<and> \<not> str_includes (grp c 1) ''{`''
               then ''>{`'' @ trim (grp c 1) @ ''`}<'' else m)
       code\<close>

definition mathPatterns :: "(regex \<times> (string \<Rightarrow> caps \<Rightarrow> string)) list" where
  \<open>mathPatterns =
     [(rx (cat [Lit '')'', Rep2 (Cls [ClsS]), Grp 1 (Plus (Cls [ClsD]))]) ''g'',
       (\<lambda>m c. '') * '' @ grp c 1)),
      (rx (cat [Grp 1 (Plus (Cls [ClsD])), Rep2 (Cls [ClsS]), Grp 2 (cat [Cls ident_start, Star (Cls [ClsW])])]) ''g'',
       (\<lambda>m c. grp c 1 @ '' * '' @ grp c 2)),
      (rx (cat [Grp 1 (cat [Cls ident_start, Star (Cls [ClsW])]), Rep2 (Cls [ClsS]), Grp 2 (Plus (Cls [ClsD]))]) ''g'',
       (\<lambda>m c. grp c 1 @ '' * '' @ grp c 2)),
      (rx (cat [Grp 1 (cat [Plus (Cls [ClsD]), Lit ''.'', Plus (Cls [ClsD])]), Rep2 (Cls [ClsS]),
                Grp 2 (cat [Cls ident_start, Star (Cls [ClsW])])]) ''g'',
       (\<lambda>m c. grp c 1 @ '' * '' @ grp c 2))]\<close>

definition ensureMathOperators :: "string \<Rightarrow> string" where
  "ensureMathOperators code = foldl (\<lambda>result (r, f). replace r f result) code mathPatterns"

definition dollarBraceRegex :: regex where
  \<open>dollarBraceRegex =
     rx (cat [Grp 1 (Alt (NCls [Ch (CHR 0x60)]) Bol), Lit ''${'',
              Grp 2 (Plus (NCls [Ch CHR ''{'', Ch CHR ''}''])), Lit ''}'',
              Grp 3 (Alt (NCls [Ch (CHR 0x60)]) Eol)]) ''g''\<close>

definition fixUniversalTemplateLiterals :: "string \<Rightarrow> string" where
  \<open>fixUniversalTemplateLiterals code =
     replace dollarBraceRegex
       (\<lambda>m c. if grp c 1 = ''{'' \<and> grp c 3 = ''}'' then m
               else if endsWith (grp c 1) ''`'' \<or> startsWith (grp c 3) ''`'' then m
               else grp c 1 @ ''`${'' @ grp c 2 @ ''}`'' @ grp c 3)
       code\<close>

definition applyContextAwareFixes :: "string \<Rightarrow> string option" where
  "applyContextAwareFixes code =
     map_option (\<lambda>code1. fixUniversalTemplateLiterals (ensureMathOperators
                   (fixMixedJSXChildren (fixComplexStyleObjects code1))))
       (fixComplexClassName code)"

text \<open>
  \<open>fixCode(code).fixedCode\<close>. The other fields of the result (the detected errors, the
  statistics and the \<open>success\<close> flag) are computed beside it and never change it.
\<close>

definition fixCode :: "string \<Rightarrow> string option" where
  "fixCode code = applyContextAwareFixes (applyPatterns errorPatterns code)"

section \<open>CodeFixer\<close>

text \<open>
  The scan of \<open>fixTemplateListInClassName\<close> from the position after \<open>className={\<close>
  to the matching brace: it returns the final \<open>endPos\<close> (before it is moved back by one)
  and \<open>hasInterpolation\<close>.
\<close>

fun scanToBrace :: "string \<Rightarrow> nat \<Rightarrow> nat \<Rightarrow> bool \<Rightarrow> nat \<times> bool" where
  "scanToBrace [] endPos braceCount hasInterpolation = (endPos, hasInterpolation)"
| "scanToBrace (ch # rest) endPos braceCount hasInterpolation =
     (if braceCount = 0 then (endPos, hasInterpolation)
      else scanToBrace rest (Suc endPos)
             (if ch = CHR ''{'' then Suc braceCount else if ch = CHR ''}'' then braceCount - 1 else braceCount)
             (hasInterpolation \<or> (ch = CHR ''$'' \<and> startsWith rest ''{'')))"

text \<open>A recorded fix: \<open>start\<close>, \<open>end\<close> and \<open>replacement\<close>.\<close>

type_synonym code_fix = "nat \<times> nat \<times> string"

definition applyFix :: "string \<Rightarrow> code_fix \<Rightarrow> string" where
  "applyFix result f = (case f of (start, end, replacement) \<Rightarrow>
      substring result 0 start @ replacement @ substring_from result end)"

text \<open>Fixes are applied from the last one to the first one.\<close>

definition applyFixes :: "code_fix list \<Rightarrow> string \<Rightarrow> string" where
  "applyFixes fixes code = foldl applyFix code (rev fixes)"

definition classNameFix :: "string \<Rightarrow> nat \<Rightarrow> code_fix list" where
  \<open>classNameFix code index =
     (let startPos = index + length ''className={'';
          startsWithBacktick = startsWith (drop startPos code) ''`'';
          scan = scanToBrace (drop startPos code) startPos 1 False;
          endPos = fst scan - 1;
          content = substring code startPos endPos
      in if snd scan \<and> \<not> startsWithBacktick
         then [(index, endPos + 1, ''className={`'' @ content @ ''`}'')]
         else [])\<close>

definition fixTemplateListInClassName :: "string \<Rightarrow> string" where
  \<open>fixTemplateListInClassName code =
     applyFixes (concat (map (\<lambda>(index, m, c). classNameFix code index)
                          (exec_all (rx (Lit ''className={'') ''g'') code)))
       code\<close>

definition propertyPattern :: regex where
  \<open>propertyPattern =
     rx (cat [Grp 1 (Plus (Cls [ClsW])), Lit '':'', Star (Cls [ClsS]),
              Grp 2 (PlusL (NCls [Ch CHR '','', Ch CHR ''}''])),
              Ahead (cat [Star (Cls [ClsS]), Cls [Ch CHR '','', Ch CHR ''}'']])]) ''g''\<close>

definition styleFix :: "nat \<times> string \<times> caps \<Rightarrow> code_fix list" where
  \<open>styleFix pm = (case pm of (index, m, c) \<Rightarrow>
     (let prop = grp c 1; v = trim (grp c 2)
      in if str_includes v ''${'' \<and> \<not> startsWith v ''`''
         then [(index, index + length m, prop @ '': `'' @ v @ ''`'')]
         else []))\<close>

definition styleObjectFix :: "nat \<times> string \<times> caps \<Rightarrow> code_fix list" where
  \<open>styleObjectFix sm = (case sm of (styleStart, m, c) \<Rightarrow>
     (let styleContent = grp c 1;
          styleFixes = concat (map styleFix (exec_all propertyPattern styleContent))
      in if styleFixes \<noteq> []
         then [(styleStart, styleStart + length m, ''style={{'' @ applyFixes styleFixes styleContent @ ''}}'')]
         else []))\<close>

definition fixTemplateListInStyle :: "string \<Rightarrow> string" where
  \<open>fixTemplateListInStyle code =
     applyFixes (concat (map styleObjectFix
                          (exec_all (rx (cat [Lit ''style={{'', Grp 1 (Plus (NCls [Ch CHR ''}''])), Lit ''}}'']) ''g'') code)))
       code\<close>

definition nestedPattern :: regex where
  \<open>nestedPattern =
     rx (cat [Lit ''${'', Grp 1 (Star (NCls [Ch CHR ''}''])), Lit ''${'', Grp 2 (Star (NCls [Ch CHR ''}''])),
              Lit ''}'', Grp 3 (Star (NCls [Ch CHR ''}''])), Lit ''}'']) ''g''\<close>

text \<open>
  The loop of \<open>fixNestedTemplateLiterals\<close>: it goes on while the last round replaced
  something and fewer than \<open>maxIterations\<close> rounds were made; the first argument is the
  number of rounds left.
\<close>

fun nestedLoop :: "nat \<Rightarrow> string \<Rightarrow> string" where
  "nestedLoop 0 fixed = fixed"
| "nestedLoop (Suc n) fixed =
     (if re_test nestedPattern fixed
      then nestedLoop n (replace nestedPattern (\<lambda>m c. ''${'' @ grp c 1 @ grp c 2 @ grp c 3 @ ''}'') fixed)
      else fixed)"

definition fixNestedTemplateLiterals :: "string \<Rightarrow> string" where
  "fixNestedTemplateLiterals code = nestedLoop 10 code"

definition ensureProperQuoting :: "string \<Rightarrow> string" where
  "ensureProperQuoting code = code"

definition fixAll :: "string \<Rightarrow> string" where
  "fixAll code =
     ensureProperQuoting (fixNestedTemplateLiterals (fixTemplateListInStyle (fixTemplateListInClassName code)))"

section \<open>AppValidator\<close>

record ValidationResult =
  isValid :: bool
  errors :: "string list"
  warnings :: "string list"

text \<open>The conditional pushes of the source: the message when the condition holds.\<close>

definition push_if :: "bool \<Rightarrow> string \<Rightarrow> string list" where
  "push_if b msg = (if b then [msg] else [])"

text \<open>The class \<open>[\s\S]\<close>: every character.\<close>

definition any_char :: re where
  "any_char = Cls [ClsS, ClsNS]"

definition voidElements :: "string list" where
  "voidElements = [''img'', ''input'', ''br'', ''hr'', ''meta'', ''link'']"

definition checkJSXIssues :: "string \<Rightarrow> string list" where
  \<open>checkJSXIssues code =
     concat (map (\<lambda>element.
        push_if (re_test (rx (cat [Lit (''<'' @ element), Star (NCls [Ch CHR ''>'']), Lit ''>'',
                                   StarL any_char, Lit (''</'' @ element @ ''>'')]) ''gi'') code)
          (''<'' @ element @ ''> should be self-closing'')) voidElements)
     @ push_if (re_test (rx (cat [Cls [ClsS], Lit ''class='', Cls [Ch (CHR 0x22), Ch (CHR 0x27)]]) ''i'') code)
         ''Use className instead of class in JSX''\<close>

definition hookNames5 :: re where
  "hookNames5 = Alt (Lit ''useState'') (Alt (Lit ''useEffect'') (Alt (Lit ''useCallback'')
                  (Alt (Lit ''useMemo'') (Lit ''useRef''))))"

definition invalidHooksPattern :: regex where
  \<open>invalidHooksPattern =
     rx (cat [NBehind ''React.'',
              Grp 1 (Alt (Lit ''useState'') (Alt (Lit ''useEffect'') (Alt (Lit ''useCallback'')
                     (Alt (Lit ''useMemo'') (Alt (Lit ''useRef'') (Lit ''useContext'')))))),
              Star (Cls [ClsS]), Lit ''(''] ) ''g''\<close>

definition conditionalHookPattern :: regex where
  \<open>conditionalHookPattern =
     rx (cat [Lit ''if'', Star (Cls [ClsS]), Lit ''('', Star (NCls [Ch CHR '')'']), Lit '')'',
              Star (NCls [Ch CHR ''{'']), Lit ''{'', Star (NCls [Ch CHR ''}'']), Lit ''React.'', Grp 1 hookNames5]) []\<close>

definition checkReactHooks :: "string \<Rightarrow> string list" where
  \<open>checkReactHooks code =
     push_if (match_count invalidHooksPattern code > 0)
       ''Hooks must be prefixed with React (e.g., React.useState instead of useState)''
     @ push_if (re_test conditionalHookPattern code)
       ''React hooks should not be called conditionally''\<close>

definition checkEventHandlers :: "string \<Rightarrow> string list" where
  \<open>checkEventHandlers code =
     push_if (re_test (rx (cat [Cls [ClsS], Lit ''onclick='']) ''i'') code
              \<and> \<not> re_test (rx (cat [Cls [ClsS], Lit ''onClick='']) []) code)
       ''Use onClick instead of onclick in JSX''
     @ push_if (re_test (rx (cat [Cls [ClsS], Lit ''onchange='']) ''i'') code
              \<and> \<not> re_test (rx (cat [Cls [ClsS], Lit ''onChange='']) []) code)
       ''Use onChange instead of onchange in JSX''\<close>

definition sandboxedSyntaxCheck :: "string \<Rightarrow> bool \<times> string list" where
  \<open>sandboxedSyntaxCheck componentCode =
     (let testCode = replace (rx (Lit ''export default '') ''g'') (\<lambda>m c. [])
                       (replace (rx (cat [Lit ''<'', Plus (NCls [Ch CHR ''>'']), Lit ''>'']) ''g'')
                                (\<lambda>m c. dq @ dq) componentCode);
          arrowFunctions = match_count (rx (cat [Lit ''=>'', Star (Cls [ClsS]), Lit ''{'']) ''g'') testCode;
          errs = push_if (\<not> str_includes testCode ''function'' \<and> arrowFunctions = 0)
                   ''No function definition found''
      in (errs = [], errs))\<close>

definition testRuntimeSyntax :: "string \<Rightarrow> bool \<times> string list" where
  "testRuntimeSyntax componentCode =
     (let errs = checkJSXIssues componentCode @ checkReactHooks componentCode
                 @ checkEventHandlers componentCode
                 @ (if \<not> fst (sandboxedSyntaxCheck componentCode) then snd (sandboxedSyntaxCheck componentCode) else [])
      in (errs = [], errs))"

definition dangerousPatterns :: "(regex \<times> string) list" where
  \<open>dangerousPatterns =
     [(rx (Lit ''eval('') ''g'', ''eval() is not allowed for security reasons''),
      (rx (Lit ''Function('') ''g'', ''Function constructor is not allowed''),
      (rx (Lit ''innerHTML'') ''g'', ''innerHTML is not allowed, use React rendering instead''),
      (rx (Lit ''dangerouslySetInnerHTML'') ''g'', ''dangerouslySetInnerHTML is not allowed''),
      (rx (Lit ''<script'') ''gi'', ''Script tags are not allowed''),
      (rx (Lit ''document.write'') ''g'', ''document.write is not allowed''),
      (rx (Lit ''window.location'') ''g'', ''window.location manipulation is not allowed'')]\<close>

definition dangerousAPIs :: "(regex \<times> string) list" where
  \<open>dangerousAPIs =
     [(rx (Lit ''fetch('') ''g'', ''Warning: Component makes external API calls''),
      (rx (Lit ''XMLHttpRequest'') ''g'', ''XMLHttpRequest is not recommended''),
      (rx (Lit ''axios.'') ''g'', ''Warning: Component uses axios for API calls'')]\<close>

definition isFunctionComponent :: "string \<Rightarrow> bool" where
  \<open>isFunctionComponent componentCode =
     (re_test (rx (Lit ''export default function'') ''i'') componentCode
      \<or> re_test (rx (Lit ''export default () =>'') ''i'') componentCode
      \<or> re_test (rx (cat [Lit ''const '', Plus (Cls [ClsW]), Lit '' = () => {'']) ''i'') componentCode)\<close>

definition hasBasicStructure :: "string \<Rightarrow> bool" where
  \<open>hasBasicStructure codeToTest =
     re_test (rx (cat [Lit ''function'', Star Dot, Lit ''{'', Star any_char,
                       Lit ''return'', Star any_char, Lit ''}'']) []) codeToTest\<close>

text \<open>
  \<open>validate\<close>. Its \<open>try\<close> blocks only run string and regular expression operations,
  which do not throw, so their \<open>catch\<close> branches are never taken.
\<close>

definition validate_errors :: "string \<Rightarrow> string list" where
  \<open>validate_errors componentCode =
     push_if (\<not> str_includes componentCode ''export default'')
       ''Component must have an export default statement''
     @ concat (map (\<lambda>(p, message). push_if (re_test p componentCode) message) dangerousPatterns)
     @ push_if (\<not> str_includes componentCode ''return'') ''Component must have a return statement''
     @ push_if (match_count (rx (Lit ''{'') ''g'') componentCode \<noteq> match_count (rx (Lit ''}'') ''g'') componentCode)
         ''Unbalanced curly braces detected''
     @ push_if (match_count (rx (Lit ''('') ''g'') componentCode \<noteq> match_count (rx (Lit '')'') ''g'') componentCode)
         ''Unbalanced parentheses detected''
     @ push_if (match_count (rx (Lit ''['') ''g'') componentCode \<noteq> match_count (rx (Lit '']'') ''g'') componentCode)
         ''Unbalanced square brackets detected''
     @ push_if (\<not> isFunctionComponent componentCode) ''Component must be a functional component''
     @ push_if (\<not> hasBasicStructure (replace (rx (Lit ''export default '') ''g'') (\<lambda>m c. []) componentCode))
         ''Component must have a function with a return statement''
     @ (if \<not> fst (testRuntimeSyntax componentCode) then snd (testRuntimeSyntax componentCode) else [])\<close>

definition validate_warnings :: "string \<Rightarrow> string list" where
  "validate_warnings componentCode =
     concat (map (\<lambda>(p, message). push_if (re_test p componentCode) message) dangerousAPIs)"

definition validate :: "string \<Rightarrow> ValidationResult" where
  "validate componentCode =
     \<lparr>isValid = (length (validate_errors componentCode) = 0),
      errors = validate_errors componentCode,
      warnings = validate_warnings componentCode\<rparr>"

definition canSafelyRender :: "string \<Rightarrow> bool" where
  "canSafelyRender componentCode =
     (length (filter (\<lambda>error. \<not> startsWith error ''Warning:'') (errors (validate componentCode))) = 0)"

section \<open>GeminiService\<close>

subsection \<open>The API key\<close>

text \<open>
  What \<open>getApiKey\<close> reads: the browser's \<open>localStorage\<close> and the build-time value
  \<open>import.meta.env.VITE_GEMINI_API_KEY\<close>. A value thrown by the code is an \<open>Error\<close> with
  its name and message, or some other value.
\<close>

record Env =
  localStorage :: "string \<rightharpoonup> string"
  VITE_GEMINI_API_KEY :: "string option"

datatype thrown = Error string string | OtherValue

definition newError :: "string \<Rightarrow> thrown" where
  "newError msg = Error ''Error'' msg"

text \<open>A key that is missing or empty is falsy, and the next source is tried.\<close>

definition truthy :: "string option \<Rightarrow> bool" where
  "truthy v = (case v of Some (c # cs) \<Rightarrow> True | _ \<Rightarrow> False)"

definition configurationError :: thrown where
  "configurationError = newError ''Gemini API key not configured. Please set VITE_GEMINI_API_KEY environment variable or configure in Settings.''"

definition getApiKey :: "Env \<Rightarrow> thrown + string" where
  "getApiKey env =
     (case localStorage env ''gemini_api_key'' of
        Some (c # cs) \<Rightarrow> Inr (c # cs)
      | _ \<Rightarrow>
        (case VITE_GEMINI_API_KEY env of
           Some (c # cs) \<Rightarrow> Inr (c # cs)
         | _ \<Rightarrow> Inl configurationError))"

subsection \<open>Decimal numbers in messages\<close>

function show_nat :: "nat \<Rightarrow> string" where
  "show_nat n = (if n < 10 then [''0123456789'' ! n] else show_nat (n div 10) @ [''0123456789'' ! (n mod 10)])"
  by pat_completeness auto
termination
  by (relation "measure id") auto

definition show_int :: "int \<Rightarrow> string" where
  "show_int i = (if i < 0 then ''-'' @ show_nat (nat (- i)) else show_nat (nat i))"

subsection \<open>Validation of the raw response\<close>

definition ws :: re where
  "ws = Cls [ClsS]"

definition jsxTagName :: re where
  "jsxTagName = cat [Cls [Rng CHR ''A'' CHR ''Z''],
                     Star (Cls [Rng CHR ''a'' CHR ''z'', Rng CHR ''A'' CHR ''Z'', Rng CHR ''0'' CHR ''9''])]"

definition truncationPatterns :: "regex list" where
  \<open>truncationPatterns =
     [rx (cat [Cls [Ch CHR '','', Ch CHR '';''], Star ws, Eol]) [],
      rx (cat [Lit ''='', Star ws, Eol]) [],
      rx (cat [Lit ''('', Star ws, Eol]) [],
      rx (cat [Lit ''['', Star ws, Eol]) [],
      rx (cat [Lit '':'', Star ws, Eol]) [],
      rx (cat [Lit ''||'', Star ws, Eol]) [],
      rx (cat [Lit ''&&'', Star ws, Eol]) [],
      rx (cat [Lit ''+'', Star ws, Eol]) [],
      rx (cat [Lit ''-'', Star ws, Eol]) []]\<close>

record GeminiValidation =
  gv_isValid :: bool
  gv_reason :: string

definition invalid :: "string \<Rightarrow> GeminiValidation" where
  "invalid r = \<lparr>gv_isValid = False, gv_reason = r\<rparr>"

text \<open>Checks 2 to 5: the reason of the first one that fails.\<close>

definition shapeReason :: "string \<Rightarrow> string option" where
  \<open>shapeReason code =
     (let openBraces = match_count (rx (Lit ''{'') ''g'') code;
          closeBraces = match_count (rx (Lit ''}'') ''g'') code;
          braceDiff = nat (abs (int openBraces - int closeBraces));
          jsxOpenTags = match_count (rx (cat [Lit ''<'', Grp 1 jsxTagName, Star (NCls [Ch CHR ''>'']), Lit ''>'']) ''g'') code;
          jsxCloseTags = match_count (rx (cat [Lit ''</'', Grp 1 jsxTagName, Lit ''>'']) ''g'') code;
          selfClosingTags = match_count (rx (cat [Lit ''<'', Grp 1 jsxTagName, Star (NCls [Ch CHR ''>'']), Lit ''/>'']) ''g'') code;
          openTagCount = int jsxOpenTags - int selfClosingTags;
          closeTagCount = int jsxCloseTags;
          tagDiff = abs (openTagCount - closeTagCount)
      in if \<not> (str_includes code ''function App'' \<or> str_includes code ''const App =''
                  \<or> str_includes code ''export default'') then
           Some ''No function declaration found - response may be incomplete''
         else if \<not> str_includes code ''return'' then
           Some ''No return statement found - component incomplete''
         else if braceDiff > 2 then
           Some (''Severely unbalanced braces: '' @ show_nat openBraces @ '' open, '' @ show_nat closeBraces
                 @ '' close (diff: '' @ show_nat braceDiff @ '')'')
         else if tagDiff > 1 then
           Some (''Unbalanced JSX tags: '' @ show_int openTagCount @ '' opening, '' @ show_int closeTagCount
                 @ '' closing (diff: '' @ show_int tagDiff @ '')'')
         else None)\<close>

text \<open>Checks 6 and 7, the truncation heuristics.\<close>

definition truncationReason :: "string \<Rightarrow> string option" where
  \<open>truncationReason code =
     (let trimmedEnd = trimEnd code;
          lastChars = slice_last trimmedEnd 50
      in if list_ex (\<lambda>p. re_test p lastChars) truncationPatterns then
           Some (''Response appears truncated - ends with incomplete statement: '' @ dq
                 @ slice_last lastChars 20 @ dq)
         else if \<not> endsWith trimmedEnd ''}'' then
           Some (''Response doesn'' @ sq @ ''t end with closing brace - last 30 chars: '' @ dq
                 @ slice_last trimmedEnd 30 @ dq)
         else None)\<close>

definition validateGeminiResponse :: "string \<Rightarrow> GeminiValidation" where
  \<open>validateGeminiResponse rawCode =
     (let code = trim rawCode
      in if code = [] \<or> length code < 50 then
           invalid (''Response too short ('' @ show_nat (length code) @ '' chars) - likely truncated or empty'')
         else (case shapeReason code of
                 Some r \<Rightarrow> invalid r
               | None \<Rightarrow>
                   (case truncationReason code of
                      Some r \<Rightarrow> invalid r
                    | None \<Rightarrow>
                        if \<not> re_test (rx (cat [Lit ''<'', Cls [Rng CHR ''a'' CHR ''z'', Rng CHR ''A'' CHR ''Z'']]) []) code
                        then invalid ''No JSX elements found - component may be incomplete''
                        else \<lparr>gv_isValid = True, gv_reason = ''Response appears complete and well-formed''\<rparr>)))\<close>

subsection \<open>Cleanup of the generated code\<close>

definition quote :: re where
  "quote = Cls [Ch (CHR 0x27), Ch (CHR 0x22)]"

definition importReact :: re where
  "importReact = cat [Lit ''import'', Plus ws, Lit ''React'', Plus ws, Lit ''from'', Plus ws,
                      quote, Lit ''react'', quote]"

definition exportDefaultApp :: re where
  "exportDefaultApp = cat [Lit ''export'', Plus ws, Lit ''default'', Plus ws, Lit ''function'', Plus ws, Lit ''App'']"

definition functionApp :: re where
  "functionApp = cat [Lit ''function'', Plus ws, Lit ''App'', Star ws, Lit ''('']"

definition codeBlock :: regex where
  \<open>codeBlock =
     rx (cat [Lit ''```'', Opt (Alt (Lit ''jsx'') (Alt (Lit ''javascript'') (Alt (Lit ''tsx'') (Lit ''typescript'')))),
              Star ws, Lit nl, Grp 1 (StarL any_char), Lit (nl @ ''```'')]) []\<close>

definition codeStartPatterns :: "regex list" where
  "codeStartPatterns = [rx (Seq Bol importReact) [], rx (Seq Bol exportDefaultApp) [], rx (Seq Bol functionApp) []]"

definition searchPatterns :: "regex list" where
  "searchPatterns = [rx importReact [], rx exportDefaultApp [], rx functionApp []]"

text \<open>
  The loop over \<open>searchPatterns\<close>: the text is cut at the first pattern that matches
  at an index above 0.
\<close>

fun stripBefore :: "regex list \<Rightarrow> string \<Rightarrow> string" where
  "stripBefore [] code = code"
| "stripBefore (p # ps) code =
     (case search_from p [] code of
        None \<Rightarrow> stripBefore ps code
      | Some (beforeCode, m, st) \<Rightarrow>
          if length beforeCode > 0 then substring_from code (length beforeCode) else stripBefore ps code)"

definition keepLine :: "string \<Rightarrow> bool" where
  "keepLine line =
     (if re_test (rx (Seq Bol importReact) ''i'') (trim line) then True
      else if re_test (rx (cat [Bol, Lit ''import'', Plus ws]) []) (trim line) then False
      else True)"

definition requireConst :: regex where
  \<open>requireConst =
     rx (cat [Lit ''const'', Plus ws, StarL Dot, Lit ''='', Star ws, Lit ''require('', quote, StarL Dot, quote,
              Lit '')'', Star ws, Opt (Lit '';'')]) ''g''\<close>

definition requireCall :: regex where
  \<open>requireCall = rx (cat [Lit ''require('', quote, StarL Dot, quote, Lit '')'']) ''g''\<close>

definition reactImportLine :: string where
  "reactImportLine = ''import React from '' @ sq @ ''react'' @ sq @ '';''"

text \<open>The text before the call of the code fixer.\<close>

definition beforeFixer :: "string \<Rightarrow> string" where
  \<open>beforeFixer code0 =
     (let code1 = trim code0;
          code2 = (case search_from codeBlock [] code1 of
                     Some (beforeCode, m, (p', s', c)) \<Rightarrow> trim (grp c 1)
                   | None \<Rightarrow> code1);
          foundAtStart = list_ex (\<lambda>p. re_test p code2) codeStartPatterns;
          code3 = (if \<not> foundAtStart then stripBefore searchPatterns code2 else code2);
          code4 = replace (rx (cat [Lit ''**'', Grp 1 (Plus (NCls [Ch CHR ''*''])), Lit ''**'']) ''g'')
                          (\<lambda>m c. grp c 1) code3;
          code5 = replace (rx (cat [Lit ''*'', Grp 1 (Plus (NCls [Ch CHR ''*''])), Lit ''*'']) ''g'')
                          (\<lambda>m c. grp c 1) code4;
          code6 = join nl (filter keepLine (split_lines code5));
          code7 = replace requireConst (\<lambda>m c. []) code6;
          code8 = replace requireCall (\<lambda>m c. []) code7;
          hasReactImportAfterCleanup = re_test (rx (Seq Bol importReact) ''m'') code8;
          code9 = (if \<not> hasReactImportAfterCleanup then reactImportLine @ nl @ nl @ code8 else code8);
          hasExportDefault = re_test (rx exportDefaultApp []) code9
      in if \<not> hasExportDefault then
           (case search_from (rx (cat [Grp 1 (Alt Bol (Lit nl)), Grp 2 functionApp]) []) [] code9 of
              Some (beforeCode, m, (p', s', c)) \<Rightarrow>
                substring code9 0 (length beforeCode + length (grp c 1)) @ ''export default ''
                @ substring_from code9 (length beforeCode + length (grp c 1))
            | None \<Rightarrow> code9)
         else code9)\<close>

definition importLine :: re where
  "importLine = cat [Bol, importReact, Star ws, Opt (Lit '';'')]"

text \<open>The failsafe after the code fixer.\<close>

definition failsafe :: "string \<Rightarrow> string" where
  \<open>failsafe fixedCode =
     (let hasReactImport = re_test (rx importLine ''m'') fixedCode
      in if \<not> hasReactImport then
           (let final1 = replace (rx (cat [importLine, Star ws, Opt (Lit nl)]) ''gm'') (\<lambda>m c. []) fixedCode;
                final2 = (if startsWith (trim final1) ''export default import''
                          then replace (rx (cat [Bol, Star ws, Lit ''export'', Plus ws, Lit ''default'', Plus ws,
                                                 importReact, Star ws, Opt (Lit '';''), Star ws, Opt (Lit nl)]) ''gm'')
                                 (\<lambda>m c. []) final1
                          else final1)
            in reactImportLine @ nl @ nl @ trim final2)
         else fixedCode)\<close>

text \<open>\<open>cleanupGeneratedCode\<close>; \<open>None\<close> when the code fixer does not return.\<close>

definition cleanupGeneratedCode :: "string \<Rightarrow> string option" where
  "cleanupGeneratedCode code = map_option failsafe (fixCode (beforeFixer code))"

subsection \<open>Validation of the cleaned code\<close>

definition hasBalancedBrackets :: "string \<Rightarrow> bool" where
  \<open>hasBalancedBrackets code =
     (let clean1 = replace (rx (cat [Lit sq, Star (NCls [Ch (CHR 0x27), Ch (CHR 0x5C)]),
                                     Star (Grp 1 (cat [Lit bsl, Dot, Star (NCls [Ch (CHR 0x27), Ch (CHR 0x5C)])])),
                                     Lit sq]) ''g'') (\<lambda>m c. sq @ sq) code;
          clean2 = replace (rx (cat [Lit dq, Star (NCls [Ch (CHR 0x22), Ch (CHR 0x5C)]),
                                     Star (Grp 1 (cat [Lit bsl, Dot, Star (NCls [Ch (CHR 0x22), Ch (CHR 0x5C)])])),
                                     Lit dq]) ''g'') (\<lambda>m c. dq @ dq) clean1;
          clean3 = replace (rx (cat [Lit bq, Star (NCls [Ch (CHR 0x60), Ch (CHR 0x5C)]),
                                     Star (Grp 1 (cat [Lit bsl, Dot, Star (NCls [Ch (CHR 0x60), Ch (CHR 0x5C)])])),
                                     Lit bq]) ''g'') (\<lambda>m c. bq @ bq) clean2;
          clean4 = replace (rx (cat [Lit ''//'', Star Dot, Eol]) ''gm'') (\<lambda>m c. []) clean3;
          cleanCode = replace (rx (cat [Lit ''/*'', StarL any_char, Lit ''*/'']) ''g'') (\<lambda>m c. []) clean4
      in if match_count (rx (Lit ''{'') ''g'') cleanCode \<noteq> match_count (rx (Lit ''}'') ''g'') cleanCode then False
         else if match_count (rx (Lit ''('') ''g'') cleanCode \<noteq> match_count (rx (Lit '')'') ''g'') cleanCode then False
         else if match_count (rx (Lit ''['') ''g'') cleanCode \<noteq> match_count (rx (Lit '']'') ''g'') cleanCode then False
         else True)\<close>

definition validateGeneratedCode :: "string \<Rightarrow> bool" where
  \<open>validateGeneratedCode code =
     (if \<not> str_includes code ''export default function App'' then False
      else if \<not> hasBalancedBrackets code then False
      else if \<not> str_includes code ''return'' then False
      else if list_ex (\<lambda>p. re_test p code)
                [rx (Lit ''eval('') ''g'', rx (Lit ''<script'') ''gi'', rx (Lit ''innerHTML'') ''g''] then False
      else True)\<close>

subsection \<open>The fallback component\<close>

definition getFallbackComponent :: "string \<Rightarrow> string" where
  \<open>getFallbackComponent description =
     reactImportLine @ nl @
     nl @
     ''export default function App() {'' @ nl @
     ''  const [message, setMessage] = React.useState('' @ sq @ ''Welcome to '' @ description @ ''!'' @ sq @ '');'' @ nl @
     nl @
     ''  return ('' @ nl @
     ''    <div className='' @ dq @ ''p-6 max-w-md mx-auto'' @ dq @ ''>'' @ nl @
     ''      <div className='' @ dq @ ''bg-white rounded-lg shadow-lg p-6'' @ dq @ ''>'' @ nl @
     ''        <h2 className='' @ dq @ ''text-2xl font-bold mb-4 text-gray-800'' @ dq @ ''>'' @ description @ ''</h2>'' @ nl @
     ''        <p className='' @ dq @ ''text-gray-600 mb-4'' @ dq @ ''>{message}</p>'' @ nl @
     ''        <button'' @ nl @
     ''          onClick={() => setMessage('' @ sq @ ''App is working!'' @ sq @ '')}'' @ nl @
     ''          className='' @ dq @ ''bg-blue-600 text-white px-4 py-2 rounded-lg hover:bg-blue-700 transition-colors'' @ dq @ nl @
     ''        >'' @ nl @
     ''          Click Me'' @ nl @
     ''        </button>'' @ nl @
     ''      </div>'' @ nl @
     ''    </div>'' @ nl @
     ''  );'' @ nl @
     ''}''\<close>

subsection \<open>The generation flows\<close>

text \<open>
  The backend is outside the program: what one \<open>fetch\<close> with the reading of its reply
  gives is an input of the model. The call either throws (a network error, an abort by
  the timeout, a reply that is not JSON or has not the expected shape), or gives a reply
  without candidates, or gives the text of the first candidate. \<open>replies n\<close> is the
  outcome of the \<open>n\<close>-th request of a flow. Every flow returns its result and the number
  of requests it issued; a result is \<open>None\<close> when the flow does not return.
\<close>

datatype reply = Threw thrown | NoCandidate | Text string

definition isTimeout :: "thrown \<Rightarrow> bool" where
  "isTimeout e = (case e of Error ename emsg \<Rightarrow> ename = ''AbortError'' \<or> str_includes emsg ''aborted''
                  | OtherValue \<Rightarrow> False)"

definition errorMessage :: "thrown \<Rightarrow> string" where
  "errorMessage e = (case e of Error ename emsg \<Rightarrow> emsg | OtherValue \<Rightarrow> ''Unknown error'')"

type_synonym flow_result = "(thrown + string) option \<times> nat"

function generateAttempts :: "nat \<Rightarrow> string \<Rightarrow> (nat \<Rightarrow> reply) \<Rightarrow> nat \<Rightarrow> flow_result" where
  "generateAttempts maxRetries description replies attempt =
     (if attempt < maxRetries then
        (case replies attempt of
           Threw e \<Rightarrow>
             if attempt = maxRetries - 1 then (Some (Inr (getFallbackComponent description)), attempt + 1)
             else generateAttempts maxRetries description replies (attempt + 1)
         | NoCandidate \<Rightarrow>
             if attempt = maxRetries - 1 then (Some (Inr (getFallbackComponent description)), attempt + 1)
             else generateAttempts maxRetries description replies (attempt + 1)
         | Text code \<Rightarrow>
             if \<not> gv_isValid (validateGeminiResponse code) then
               (if attempt < maxRetries - 1 then generateAttempts maxRetries description replies (attempt + 1)
                else (Some (Inr (getFallbackComponent description)), attempt + 1))
             else
               (case cleanupGeneratedCode code of
                  None \<Rightarrow> (None, attempt + 1)
                | Some cleaned \<Rightarrow>
                    if validateGeneratedCode cleaned then (Some (Inr cleaned), attempt + 1)
                    else if attempt < maxRetries - 1 then generateAttempts maxRetries description replies (attempt + 1)
                    else if attempt = maxRetries - 1 then (Some (Inr (getFallbackComponent description)), attempt + 1)
                    else generateAttempts maxRetries description replies (attempt + 1)))
      else (Some (Inr (getFallbackComponent description)), attempt))"
  by pat_completeness auto
termination
  by (relation "measure (\<lambda>(maxRetries, description, replies, attempt). maxRetries - attempt)") auto

declare generateAttempts.simps [simp del]

definition generateReactComponent :: "string \<Rightarrow> string \<Rightarrow> (nat \<Rightarrow> reply) \<Rightarrow> flow_result" where
  "generateReactComponent description apiKey replies = generateAttempts 3 description replies 0"

text \<open>
  The loop of \<open>fixBrokenComponent\<close> and \<open>updateComponent\<close>; they differ in their
  messages only: \<open>invalidMsg\<close> is thrown inside the \<open>try\<close> on the last attempt,
  \<open>timeoutMsg\<close> and \<open>failedPrefix\<close> make the error of the \<open>catch\<close>, \<open>afterMsg\<close> is
  thrown after the loop.
\<close>

record FlowMessages =
  invalidMsg :: string
  timeoutMsg :: string
  failedPrefix :: string
  afterMsg :: string

definition catchBlock :: "FlowMessages \<Rightarrow> thrown \<Rightarrow> thrown" where
  "catchBlock msgs e =
     (if isTimeout e then newError (timeoutMsg msgs)
      else newError (failedPrefix msgs @ errorMessage e))"

function repairAttempts :: "FlowMessages \<Rightarrow> nat \<Rightarrow> (nat \<Rightarrow> reply) \<Rightarrow> nat \<Rightarrow> flow_result" where
  "repairAttempts msgs maxRetries replies attempt =
     (if attempt < maxRetries then
        (case replies attempt of
           Threw e \<Rightarrow>
             if attempt = maxRetries - 1 then (Some (Inl (catchBlock msgs e)), attempt + 1)
             else repairAttempts msgs maxRetries replies (attempt + 1)
         | NoCandidate \<Rightarrow>
             if attempt = maxRetries - 1 then (Some (Inl (catchBlock msgs (newError (invalidMsg msgs)))), attempt + 1)
             else repairAttempts msgs maxRetries replies (attempt + 1)
         | Text code \<Rightarrow>
             (case cleanupGeneratedCode code of
                None \<Rightarrow> (None, attempt + 1)
              | Some cleaned \<Rightarrow>
                  if validateGeneratedCode cleaned then (Some (Inr cleaned), attempt + 1)
                  else if attempt < maxRetries - 1 then repairAttempts msgs maxRetries replies (attempt + 1)
                  else if attempt = maxRetries - 1
                    then (Some (Inl (catchBlock msgs (newError (invalidMsg msgs)))), attempt + 1)
                  else repairAttempts msgs maxRetries replies (attempt + 1)))
      else (Some (Inl (newError (afterMsg msgs))), attempt))"
  by pat_completeness auto
termination
  by (relation "measure (\<lambda>(msgs, maxRetries, replies, attempt). maxRetries - attempt)") auto

declare repairAttempts.simps [simp del]

definition fixMessages :: FlowMessages where
  "fixMessages = \<lparr>
     invalidMsg = ''Failed to generate valid fixed code after all retries'',
     timeoutMsg = ''Gemini API timeout: The request took longer than 2 minutes. The component may be too complex to fix automatically.'',
     failedPrefix = ''Failed to fix component: '',
     afterMsg = ''Failed to fix component after all retry attempts''\<rparr>"

definition updateMessages :: FlowMessages where
  "updateMessages = \<lparr>
     invalidMsg = ''Failed to generate valid updated code after all retries'',
     timeoutMsg = ''Gemini API timeout: The request took longer than 2 minutes. Please try again with a simpler update request.'',
     failedPrefix = ''Failed to update component: '',
     afterMsg = ''Failed to update component after all retry attempts''\<rparr>"

definition fixBrokenComponent :: "Env \<Rightarrow> string \<Rightarrow> string list \<Rightarrow> string \<Rightarrow> (nat \<Rightarrow> reply) \<Rightarrow> flow_result" where
  "fixBrokenComponent env brokenCode errs originalDescription replies =
     (case getApiKey env of
        Inl e \<Rightarrow> (Some (Inl e), 0)
      | Inr apiKey \<Rightarrow> repairAttempts fixMessages 2 replies 0)"

definition updateComponent :: "Env \<Rightarrow> string \<Rightarrow> string \<Rightarrow> string \<Rightarrow> (nat \<Rightarrow> reply) \<Rightarrow> flow_result" where
  "updateComponent env currentCode updatePrompt originalDescription replies =
     (case getApiKey env of
        Inl e \<Rightarrow> (Some (Inl e), 0)
      | Inr apiKey \<Rightarrow> repairAttempts updateMessages 2 replies 0)"

text \<open>
  \<open>generateAppFromPrompt\<close>: the key, then the name and description (one request, whose
  failure is replaced by a default), the icon (no request) and the component. The reply
  to the first request is the parsed name and description, or \<open>None\<close> when the request
  or the parsing failed; the later replies are those of the component generation.
\<close>

record GeneratedApp =
  app_name :: string
  app_description :: string
  app_iconUrl :: string
  app_componentCode :: string

definition generateAppInfo :: "string \<Rightarrow> (string \<times> string) option \<Rightarrow> string \<times> string" where
  "generateAppInfo prompt parsed =
     (case parsed of Some info \<Rightarrow> info
      | None \<Rightarrow> (prompt, ''A useful '' @ prompt @ '' application''))"

definition generateAppFromPrompt ::
  "Env \<Rightarrow> (string \<Rightarrow> string) \<Rightarrow> string \<Rightarrow> (string \<times> string) option \<Rightarrow> (nat \<Rightarrow> reply)
   \<Rightarrow> (thrown + GeneratedApp) option \<times> nat" where
  "generateAppFromPrompt env generateEmojiIcon prompt parsed replies =
     (case getApiKey env of
        Inl e \<Rightarrow> (Some (Inl e), 0)
      | Inr apiKey \<Rightarrow>
          (let appInfo = generateAppInfo prompt parsed;
               gen = generateReactComponent (snd appInfo) apiKey replies
           in (case fst gen of
                 None \<Rightarrow> (None, 1 + snd gen)
               | Some (Inl e) \<Rightarrow> (Some (Inl e), 1 + snd gen)
               | Some (Inr code) \<Rightarrow>
                   (Some (Inr \<lparr>app_name = fst appInfo, app_description = snd appInfo,
                               app_iconUrl = generateEmojiIcon (snd appInfo), app_componentCode = code\<rparr>),
                    1 + snd gen))))"

section \<open>RuntimeTester\<close>

text \<open>
  \<open>testComponent\<close> runs on the browser's event loop: the body of the promise sets the
  test up, and afterwards the callbacks of \<open>setInterval\<close> and \<open>setTimeout\<close> run, one at
  a time and each to its end, in an order and with observations of the frame that the
  program does not choose. The model is the state that the callbacks share and one
  function per callback. The clock reading \<open>executionTime\<close> of the result is left out.
\<close>

record RuntimeTestResult =
  success :: bool
  rt_errors :: "string list"
  rt_warnings :: "string list"
  hasVisibleContent :: bool

record tester =
  attached :: bool
  timeoutPending :: bool
  intervalRunning :: bool
  test_errors :: "string list"
  test_warnings :: "string list"
  resolved :: "RuntimeTestResult option"

text \<open>\<open>resolve(r)\<close>: only the first call settles the promise.\<close>

definition resolve :: "RuntimeTestResult \<Rightarrow> tester \<Rightarrow> tester" where
  "resolve r t = (case resolved t of None \<Rightarrow> t\<lparr>resolved := Some r\<rparr> | Some r0 \<Rightarrow> t)"

text \<open>\<open>cleanup()\<close>: clears the timeout and removes the frame if it has a parent.\<close>

definition cleanup :: "tester \<Rightarrow> tester" where
  "cleanup t =
     (let t1 = t\<lparr>timeoutPending := False\<rparr>
      in if attached t1 then t1\<lparr>attached := False\<rparr> else t1)"

text \<open>
  The set-up in the \<open>try\<close> block either completes (the frame is appended last), or
  throws before the timers are created, or throws after they are created and before the
  frame is appended. The \<open>catch\<close> block records the message and resolves.
\<close>

datatype setting_up = SetupDone | ThrowsBeforeTimers string | ThrowsAfterTimers string

definition setupFailure :: "string \<Rightarrow> tester \<Rightarrow> tester" where
  "setupFailure msg t =
     (let t1 = t\<lparr>test_errors := test_errors t @ [''Runtime test setup failed: '' @ msg]\<rparr>
      in resolve \<lparr>success = False, rt_errors = test_errors t1, rt_warnings = test_warnings t1, hasVisibleContent = False\<rparr> t1)"

definition initial :: tester where
  "initial = \<lparr>attached = False, timeoutPending = False, intervalRunning = False,
              test_errors = [], test_warnings = [], resolved = None\<rparr>"

definition start :: "setting_up \<Rightarrow> tester" where
  "start s =
     (case s of
        SetupDone \<Rightarrow> initial\<lparr>timeoutPending := True, intervalRunning := True, attached := True\<rparr>
      | ThrowsBeforeTimers msg \<Rightarrow> setupFailure msg initial
      | ThrowsAfterTimers msg \<Rightarrow> setupFailure msg (initial\<lparr>timeoutPending := True, intervalRunning := True\<rparr>))"

text \<open>
  What one run of the interval callback sees in the frame: reading the frame throws, or
  there is no window yet, or the libraries are not loaded, or \<open>renderComplete\<close> is still
  undefined, or the render is over with the frame's \<open>renderComplete\<close>, \<open>testErrors\<close>,
  \<open>testWarnings\<close> and \<open>hasContent\<close>; a read may also throw after the interval was
  cleared.
\<close>

datatype observation =
    AccessThrows
  | NoWindow
  | NotReady
  | RenderPending
  | ThrowsAfterClear
  | Rendered bool "string list" "string list" bool

datatype event = Tick observation | Timeout

definition onTimeout :: "tester \<Rightarrow> tester" where
  "onTimeout t =
     (let t1 = cleanup t;
          t2 = t1\<lparr>test_errors := test_errors t1 @ [''Component test timed out - may have infinite loop or async issues'']\<rparr>
      in resolve \<lparr>success = False, rt_errors = test_errors t2, rt_warnings = test_warnings t2, hasVisibleContent = False\<rparr> t2)"

definition onTick :: "observation \<Rightarrow> tester \<Rightarrow> tester" where
  "onTick ob t =
     (case ob of
        AccessThrows \<Rightarrow> t
      | NoWindow \<Rightarrow> t
      | NotReady \<Rightarrow> t
      | RenderPending \<Rightarrow> t
      | ThrowsAfterClear \<Rightarrow> t\<lparr>intervalRunning := False\<rparr>
      | Rendered renderComplete testErrors testWarnings hasContent \<Rightarrow>
          (let t1 = t\<lparr>intervalRunning := False\<rparr>;
               t2 = t1\<lparr>test_errors := test_errors t1 @ testErrors\<rparr>;
               t3 = t2\<lparr>test_warnings := test_warnings t2 @ testWarnings\<rparr>;
               t4 = (if \<not> hasContent
                     then t3\<lparr>test_warnings := test_warnings t3 @ [''Component rendered but produced no visible content'']\<rparr>
                     else t3);
               t5 = cleanup t4
           in resolve \<lparr>success = (length (test_errors t5) = 0 \<and> renderComplete), rt_errors = test_errors t5,
                        rt_warnings = test_warnings t5, hasVisibleContent = hasContent\<rparr> t5))"

text \<open>A callback runs only while its timer is set.\<close>

definition step :: "tester \<Rightarrow> event \<Rightarrow> tester" where
  "step t e =
     (case e of
        Tick ob \<Rightarrow> if intervalRunning t then onTick ob t else t
      | Timeout \<Rightarrow> if timeoutPending t then onTimeout t else t)"

definition run :: "setting_up \<Rightarrow> event list \<Rightarrow> tester" where
  "run s es = foldl step (start s) es"

text \<open>
  Sequential calls: the number of test frames in the document after the calls of the
  list, each given by its set-up and the events up to the moment its promise resolves; a
  call leaves a frame behind when its frame is still attached at that moment.
\<close>

fun framesAfter :: "nat \<Rightarrow> (setting_up \<times> event list) list \<Rightarrow> nat" where
  "framesAfter n [] = n"
| "framesAfter n ((s, es) # calls) = framesAfter (if attached (run s es) then Suc n else n) calls"

section \<open>Predicates and example texts of the properties\<close>

text \<open>No message of a list starts with \<open>Warning:\<close>.\<close>

definition no_warning_prefix :: "string list \<Rightarrow> bool" where
  "no_warning_prefix msgs = list_all (\<lambda>e. \<not> startsWith e ''Warning:'') msgs"

text \<open>
  An interpolation \<open>${\<close> outside a template literal: the text is read from the left,
  every backtick opens or closes a template literal, and a \<open>${\<close> met outside one is
  reported. The first argument tells whether the position is inside a template literal.
\<close>

fun interpolation_outside :: "bool \<Rightarrow> string \<Rightarrow> bool" where
  "interpolation_outside inside [] = False"
| "interpolation_outside inside (c # cs) =
     (if c = CHR 0x60 then interpolation_outside (\<not> inside) cs
      else if c = CHR ''$'' \<and> startsWith cs ''{'' \<and> \<not> inside then True
      else interpolation_outside inside cs)"

text \<open>The example of the backtick-wrapping fix, and its repaired form.\<close>

definition className_example :: string where
  \<open>className_example = ''className={base ${isActive ? '' @ sq @ ''a'' @ sq @ '' : '' @ sq @ ''b'' @ sq @ ''}}''\<close>

definition className_repaired :: string where
  \<open>className_repaired = ''className={`base ${isActive ? '' @ sq @ ''a'' @ sq @ '' : '' @ sq @ ''b'' @ sq @ ''}`}''\<close>

text \<open>Twelve nested interpolations, and two interpolations side by side.\<close>

definition nested_twelve :: string where
  \<open>nested_twelve = ''${${${${${${${${${${${${x}}}}}}}}}}}}''\<close>

definition two_interpolations :: string where
  \<open>two_interpolations = ''${a} ${b}''\<close>

text \<open>A component whose React import stands after the component function.\<close>

definition import_after_component :: string where
  \<open>import_after_component =
     ''export default function App() {'' @ nl @
     ''  return <div>Hi</div>;'' @ nl @
     ''}'' @ nl @
     reactImportLine @ nl @
     ''const x = {}''\<close>

text \<open>A component whose only unmatched brace stands in a string literal.\<close>

definition brace_in_string :: string where
  \<open>brace_in_string =
     ''export default function App() { const s = '' @ dq @ ''{'' @ dq @ ''; return <div>{s}</div>; }''\<close>

text \<open>A bare call of the hook \<open>useContext\<close>, and a bare call of \<open>useState\<close>.\<close>

definition useContext_call :: string where
  \<open>useContext_call = ''const theme = useContext(ThemeContext)''\<close>

definition useState_call :: string where
  \<open>useState_call = ''const [count, setCount] = useState(0)''\<close>

text \<open>A response cut off inside nested blocks, after a \<open>+\<close>.\<close>

definition cut_off_response :: string where
  \<open>cut_off_response =
     ''export default function App() { return items.map(i => { if (i) { total = total +''\<close>

text \<open>The bare call of \<open>useState\<close> after the repair.\<close>

definition useState_repaired :: string where
  \<open>useState_repaired = ''const [count, setCount] = React.useState(0)''\<close>

text \<open>A pair of parentheses between two comments that hold an apostrophe each.\<close>

definition quote_in_comments :: string where
  \<open>quote_in_comments = ''/* '' @ sq @ '' */ ( /* '' @ sq @ '' */ )''\<close>

text \<open>
  A reason of the raw validation that speaks of truncation: the reasons of checks 1 and
  6 say \<open>truncated\<close>, the reason of check 7 says \<open>closing brace\<close>.
\<close>

definition truncation_classified :: "string \<Rightarrow> bool" where
  \<open>truncation_classified r = (str_includes r ''truncated'' \<or> str_includes r ''closing brace'')\<close>

text \<open>A text that ends with a dangling operator, a separator or an open bracket.\<close>

definition ends_dangling :: "string \<Rightarrow> bool" where
  \<open>ends_dangling t =
     list_ex (endsWith t) [''+'', ''-'', ''&&'', ''||'', ''='', '','', '';'', '':'', ''('', ''['']\<close>

text \<open>
  An attempt of the create flow fails when the request throws, or the reply has no
  candidate, or the raw validation rejects the text, or the validation after the cleanup
  rejects the cleaned text. An attempt of the fix flow has no raw validation.
\<close>

definition attempt_fails :: "reply \<Rightarrow> bool" where
  "attempt_fails r =
     (case r of
        Threw e \<Rightarrow> True
      | NoCandidate \<Rightarrow> True
      | Text code \<Rightarrow>
          (if \<not> gv_isValid (validateGeminiResponse code) then True
           else (case cleanupGeneratedCode code of
                   None \<Rightarrow> False
                 | Some cleaned \<Rightarrow> \<not> validateGeneratedCode cleaned)))"

definition repair_fails :: "reply \<Rightarrow> bool" where
  "repair_fails r =
     (case r of
        Threw e \<Rightarrow> True
      | NoCandidate \<Rightarrow> True
      | Text code \<Rightarrow>
          (case cleanupGeneratedCode code of
             None \<Rightarrow> False
           | Some cleaned \<Rightarrow> \<not> validateGeneratedCode cleaned))"

text \<open>A thrown value is a typed error when it is an \<open>Error\<close> object.\<close>

definition is_typed_error :: "thrown \<Rightarrow> bool" where
  "is_typed_error e = (case e of Error ename emsg \<Rightarrow> ename = ''Error'' | OtherValue \<Rightarrow> False)"

section \<open>Properties of the validator\<close>

lemma no_warning_prefix_simps [simp]:
  "no_warning_prefix []"
  "no_warning_prefix (A @ B) = (no_warning_prefix A \<and> no_warning_prefix B)"
  "no_warning_prefix (x # A) = (\<not> startsWith x ''Warning:'' \<and> no_warning_prefix A)"
  by (simp_all add: no_warning_prefix_def)

lemma no_warning_prefix_push_if [simp]:
  "\<not> startsWith m ''Warning:'' \<Longrightarrow> no_warning_prefix (push_if b m)"
  by (simp add: push_if_def)

lemma no_warning_prefix_if [simp]:
  "no_warning_prefix A \<Longrightarrow> no_warning_prefix (if b then A else [])"
  by simp

lemma checkJSXIssues_no_warning: "no_warning_prefix (checkJSXIssues code)"
  unfolding checkJSXIssues_def voidElements_def
  by simp

lemma checkReactHooks_no_warning: "no_warning_prefix (checkReactHooks code)"
  unfolding checkReactHooks_def by simp

lemma checkEventHandlers_no_warning: "no_warning_prefix (checkEventHandlers code)"
  unfolding checkEventHandlers_def by simp

lemma sandboxedSyntaxCheck_no_warning: "no_warning_prefix (snd (sandboxedSyntaxCheck code))"
  unfolding sandboxedSyntaxCheck_def Let_def by simp

lemma testRuntimeSyntax_no_warning: "no_warning_prefix (snd (testRuntimeSyntax code))"
  unfolding testRuntimeSyntax_def Let_def
  by (simp add: checkJSXIssues_no_warning checkReactHooks_no_warning checkEventHandlers_no_warning
      sandboxedSyntaxCheck_no_warning)

lemma dangerousPatterns_no_warning:
  "no_warning_prefix (concat (map (\<lambda>(p, message). push_if (re_test p code) message) dangerousPatterns))"
  unfolding dangerousPatterns_def by simp

lemma validate_errors_no_warning: "no_warning_prefix (validate_errors code)"
  unfolding validate_errors_def
  by (simp add: dangerousPatterns_no_warning testRuntimeSyntax_no_warning)

text \<open>
  Claim C10. For every input, \<open>canSafelyRender\<close> returns true exactly when \<open>validate\<close>
  reports the input valid: the filter on the prefix \<open>Warning:\<close> removes nothing from the
  errors of \<open>validate\<close>.
\<close>

theorem canSafelyRender_iff_isValid:
  "canSafelyRender componentCode = isValid (validate componentCode)"
proof -
  have "filter (\<lambda>error. \<not> startsWith error ''Warning:'') (validate_errors componentCode)
        = validate_errors componentCode"
    using validate_errors_no_warning [of componentCode]
    by (simp add: no_warning_prefix_def list_all_iff)
  then show ?thesis
    by (simp add: canSafelyRender_def validate_def)
qed

section \<open>Properties of the runtime tester\<close>

lemma cleanup_fields [simp]:
  "resolved (cleanup t) = resolved t" "attached (cleanup t) = False"
  by (simp_all add: cleanup_def Let_def)

lemma step_keeps_teardown:
  "(resolved t \<noteq> None \<longrightarrow> \<not> attached t)
   \<Longrightarrow> (resolved (step t e) \<noteq> None \<longrightarrow> \<not> attached (step t e))"
  by (auto simp: step_def onTick_def onTimeout_def resolve_def Let_def cleanup_def
      split: event.splits observation.splits option.splits if_splits)

lemma start_teardown: "resolved (start s) \<noteq> None \<longrightarrow> \<not> attached (start s)"
  by (auto simp: start_def initial_def setupFailure_def resolve_def Let_def
      split: setting_up.splits option.splits)

lemma foldl_step_teardown:
  "(resolved t \<noteq> None \<longrightarrow> \<not> attached t)
   \<Longrightarrow> (resolved (foldl step t es) \<noteq> None \<longrightarrow> \<not> attached (foldl step t es))"
proof (induction es arbitrary: t)
  case Nil
  then show ?case by simp
next
  case (Cons e es)
  show ?case
    using Cons.IH [OF step_keeps_teardown [OF Cons.prems]] by simp
qed

lemma run_teardown: "resolved (run s es) \<noteq> None \<Longrightarrow> \<not> attached (run s es)"
  using foldl_step_teardown [OF start_teardown] by (simp add: run_def)

lemma framesAfter_resolved:
  "list_all (\<lambda>(s, es). resolved (run s es) \<noteq> None) calls \<Longrightarrow> framesAfter n calls = n"
proof (induction calls arbitrary: n)
  case Nil
  then show ?case by simp
next
  case (Cons call calls)
  obtain s es where call: "call = (s, es)"
    by (cases call)
  from Cons.prems call have r: "resolved (run s es) \<noteq> None"
    and rest: "list_all (\<lambda>(s, es). resolved (run s es) \<noteq> None) calls"
    by simp_all
  from run_teardown [OF r] have "\<not> attached (run s es)" .
  then show ?case
    using Cons.IH [OF rest] call by simp
qed

text \<open>
  Claim C7. Whenever the promise of \<open>testComponent\<close> is resolved, the frame is no longer
  in the document, whatever the set-up did and whatever callbacks ran before, in any
  order and with any observations; and any number of sequential calls, each followed
  until its promise is resolved, leaves no frame behind.
\<close>

theorem sandbox_torn_down_when_resolved:
  "(resolved (run s es) \<noteq> None \<longrightarrow> \<not> attached (run s es))
   \<and> (list_all (\<lambda>(s, es). resolved (run s es) \<noteq> None) calls \<longrightarrow> framesAfter 0 calls = 0)"
  using run_teardown [of s es] framesAfter_resolved [of calls 0] by blast

theorem sandbox_torn_down_witness:
  "resolved (run SetupDone [Tick NotReady, Tick (Rendered True [] [] True)]) \<noteq> None
   \<and> \<not> attached (run SetupDone [Tick NotReady, Tick (Rendered True [] [] True)])
   \<and> list_all (\<lambda>(s, es). resolved (run s es) \<noteq> None)
        [(SetupDone, [Tick NotReady, Tick (Rendered True [] [] True)]),
         (SetupDone, [Tick (Rendered False [''ReferenceError''] [] False)]),
         (SetupDone, [Tick AccessThrows, Tick RenderPending, Timeout]),
         (ThrowsAfterTimers ''no body'', [])]
   \<and> framesAfter 0
        [(SetupDone, [Tick NotReady, Tick (Rendered True [] [] True)]),
         (SetupDone, [Tick (Rendered False [''ReferenceError''] [] False)]),
         (SetupDone, [Tick AccessThrows, Tick RenderPending, Timeout]),
         (ThrowsAfterTimers ''no body'', [])] = 0"
proof -
  have r1: "resolved (run SetupDone [Tick NotReady, Tick (Rendered True [] [] True)]) \<noteq> None"
    by (simp add: run_def start_def initial_def step_def onTick_def resolve_def cleanup_def Let_def)
  have r2: "resolved (run SetupDone [Tick (Rendered False [''ReferenceError''] [] False)]) \<noteq> None"
    by (simp add: run_def start_def initial_def step_def onTick_def resolve_def cleanup_def Let_def)
  have r3: "resolved (run SetupDone [Tick AccessThrows, Tick RenderPending, Timeout]) \<noteq> None"
    by (simp add: run_def start_def initial_def step_def onTick_def onTimeout_def resolve_def cleanup_def Let_def)
  have r4: "resolved (run (ThrowsAfterTimers ''no body'') []) \<noteq> None"
    by (simp add: run_def start_def initial_def setupFailure_def resolve_def Let_def)
  have la: "list_all (\<lambda>(s, es). resolved (run s es) \<noteq> None)
        [(SetupDone, [Tick NotReady, Tick (Rendered True [] [] True)]),
         (SetupDone, [Tick (Rendered False [''ReferenceError''] [] False)]),
         (SetupDone, [Tick AccessThrows, Tick RenderPending, Timeout]),
         (ThrowsAfterTimers ''no body'', [])]"
    using r1 r2 r3 r4 by simp
  from sandbox_torn_down_when_resolved [of SetupDone "[Tick NotReady, Tick (Rendered True [] [] True)]"
        "[(SetupDone, [Tick NotReady, Tick (Rendered True [] [] True)]),
          (SetupDone, [Tick (Rendered False [''ReferenceError''] [] False)]),
          (SetupDone, [Tick AccessThrows, Tick RenderPending, Timeout]),
          (ThrowsAfterTimers ''no body'', [])]"] r1 la
  show ?thesis
    by blast
qed

section \<open>Properties of the generation flows\<close>

lemma getApiKey_missing:
  "\<not> truthy (localStorage env ''gemini_api_key'') \<Longrightarrow> \<not> truthy (VITE_GEMINI_API_KEY env)
   \<Longrightarrow> getApiKey env = Inl configurationError"
  by (auto simp: getApiKey_def truthy_def split: option.splits list.splits)

lemma getApiKey_override:
  "truthy (localStorage env ''gemini_api_key'')
   \<Longrightarrow> getApiKey env = Inr (the (localStorage env ''gemini_api_key''))"
  by (auto simp: getApiKey_def truthy_def split: option.splits list.splits)

text \<open>
  Claim C8. When neither the local override nor the environment variable supplies a key,
  the create, fix and update entry points throw the configuration error and have issued
  no request; when the local override supplies a key, \<open>getApiKey\<close> returns it, whatever
  the environment variable holds.
\<close>

theorem missing_key_is_configuration_error:
  "(\<not> truthy (localStorage env ''gemini_api_key'') \<and> \<not> truthy (VITE_GEMINI_API_KEY env) \<longrightarrow>
      generateAppFromPrompt env generateEmojiIcon prompt parsed replies = (Some (Inl configurationError), 0)
      \<and> fixBrokenComponent env brokenCode errs originalDescription replies = (Some (Inl configurationError), 0)
      \<and> updateComponent env currentCode updatePrompt originalDescription replies = (Some (Inl configurationError), 0))
   \<and> (truthy (localStorage env ''gemini_api_key'') \<longrightarrow>
      getApiKey env = Inr (the (localStorage env ''gemini_api_key'')))"
  using getApiKey_missing [of env] getApiKey_override [of env]
  by (auto simp: generateAppFromPrompt_def fixBrokenComponent_def updateComponent_def)

theorem missing_key_is_configuration_error_witness:
  "generateAppFromPrompt \<lparr>localStorage = Map.empty, VITE_GEMINI_API_KEY = None\<rparr> (\<lambda>d. d) ''a counter'' None (\<lambda>n. NoCandidate)
     = (Some (Inl configurationError), 0)
   \<and> fixBrokenComponent \<lparr>localStorage = Map.empty, VITE_GEMINI_API_KEY = Some []\<rparr> ''x'' [] ''a counter'' (\<lambda>n. NoCandidate)
     = (Some (Inl configurationError), 0)
   \<and> getApiKey \<lparr>localStorage = [''gemini_api_key'' \<mapsto> ''user-key''], VITE_GEMINI_API_KEY = Some ''env-key''\<rparr>
     = Inr ''user-key''"
  using missing_key_is_configuration_error
          [of "\<lparr>localStorage = Map.empty, VITE_GEMINI_API_KEY = None\<rparr>" "\<lambda>d. d" "''a counter''" None "\<lambda>n. NoCandidate"]
        missing_key_is_configuration_error
          [of "\<lparr>localStorage = Map.empty, VITE_GEMINI_API_KEY = Some []\<rparr>" _ _ _ "\<lambda>n. NoCandidate" "''x''" "[]" "''a counter''"]
        missing_key_is_configuration_error
          [of "\<lparr>localStorage = [''gemini_api_key'' \<mapsto> ''user-key''], VITE_GEMINI_API_KEY = Some ''env-key''\<rparr>"]
  by (simp add: truthy_def)

section \<open>The repair of the class name example\<close>

lemma fixCode_className_example: "fixCode className_example = Some className_repaired"
  by code_simp

lemma fixAll_className_example: "fixAll className_example = className_repaired"
  by code_simp

lemma className_repaired_closed: "\<not> interpolation_outside False className_repaired"
  by code_simp

text \<open>
  Claim C6. On the input \<open>className={base ${isActive ? 'a' : 'b'}}\<close> the code fixer
  \<open>fixCode\<close> and the fixer \<open>fixAll\<close> both return exactly the text whose content is wrapped
  in backticks inside the braces, and in that text no \<open>${\<close> stands outside a template
  literal.
\<close>

theorem className_example_is_wrapped:
  "fixCode className_example = Some className_repaired
   \<and> fixAll className_example = className_repaired
   \<and> \<not> interpolation_outside False className_repaired"
  by (intro conjI fixCode_className_example fixAll_className_example className_repaired_closed)

section \<open>The bracket checks\<close>

lemma validate_brace_in_string:
  "errors (validate brace_in_string) = [''Unbalanced curly braces detected'']"
  by code_simp

lemma hasBalancedBrackets_brace_in_string: "hasBalancedBrackets brace_in_string"
  by code_simp

lemma hasBalancedBrackets_quote_in_comments: "\<not> hasBalancedBrackets quote_in_comments"
  by code_simp

text \<open>
  Claim C3. The claim fails on the code. For a component whose only unmatched brace
  stands in a string literal, \<open>validate\<close> reports unbalanced curly braces: its check counts
  the braces of the raw text, while \<open>hasBalancedBrackets\<close> blanks the literal and finds the
  same text balanced. \<open>hasBalancedBrackets\<close> in turn reads an apostrophe in a comment as
  the start of a string, and finds a balanced pair of parentheses between two such
  comments unbalanced.
\<close>

theorem brace_in_string_is_reported:
  "errors (validate brace_in_string) = [''Unbalanced curly braces detected'']
   \<and> hasBalancedBrackets brace_in_string
   \<and> \<not> hasBalancedBrackets quote_in_comments"
  by (intro conjI validate_brace_in_string hasBalancedBrackets_brace_in_string
        hasBalancedBrackets_quote_in_comments)

section \<open>The hook prefix\<close>

lemma fixCode_useContext_call: "fixCode useContext_call = Some useContext_call"
  by code_simp

lemma checkReactHooks_useContext_call:
  "checkReactHooks useContext_call =
     [''Hooks must be prefixed with React (e.g., React.useState instead of useState)'']"
  by code_simp

lemma validate_useContext_call:
  "''Hooks must be prefixed with React (e.g., React.useState instead of useState)''
     \<in> set (errors (validate useContext_call))"
  by code_simp

lemma fixCode_useState_call: "fixCode useState_call = Some useState_repaired"
  by code_simp

lemma checkReactHooks_useState_repaired: "checkReactHooks useState_repaired = []"
  by code_simp

text \<open>
  Claim C5. The claim fails on the code for the hook \<open>useContext\<close>. The code fixer
  leaves the bare call \<open>useContext(ThemeContext)\<close> as it is, and the validator reports the
  missing prefix on the repaired text: the pattern of the fixer names five hooks, the
  pattern of the validator names \<open>useContext\<close> as well. The bare call \<open>useState(0)\<close> is
  rewritten to \<open>React.useState(0)\<close>, on which the hook check reports nothing.
\<close>

theorem bare_useContext_is_not_repaired:
  "fixCode useContext_call = Some useContext_call
   \<and> checkReactHooks useContext_call =
       [''Hooks must be prefixed with React (e.g., React.useState instead of useState)'']
   \<and> ''Hooks must be prefixed with React (e.g., React.useState instead of useState)''
       \<in> set (errors (validate useContext_call))
   \<and> fixCode useState_call = Some useState_repaired
   \<and> checkReactHooks useState_repaired = []"
  by (intro conjI fixCode_useContext_call checkReactHooks_useContext_call validate_useContext_call
        fixCode_useState_call checkReactHooks_useState_repaired)

section \<open>The React import after the cleanup\<close>

lemma cleanup_import_after_component:
  "cleanupGeneratedCode import_after_component = Some import_after_component"
  by code_simp

lemma import_after_component_start: "\<not> startsWith import_after_component reactImportLine"
  by code_simp

lemma import_after_component_raw_valid: "gv_isValid (validateGeminiResponse import_after_component)"
  by code_simp

lemma import_after_component_valid: "validateGeneratedCode import_after_component"
  by code_simp

text \<open>
  Claim C9. The claim fails on the code. For a text that holds the React import on a line
  after the component, the cleanup returns the text unchanged, so the returned text begins
  with \<open>export default\<close> and not with the import: the failsafe looks for the import at the
  start of any line and moves nothing when it finds one. The text passes both validations,
  and the create flow returns it at the first attempt.
\<close>

theorem import_after_component_is_kept:
  "cleanupGeneratedCode import_after_component = Some import_after_component
   \<and> \<not> startsWith import_after_component reactImportLine
   \<and> generateReactComponent description apiKey (\<lambda>n. Text import_after_component)
       = (Some (Inr import_after_component), 1)"
  by (simp add: generateReactComponent_def generateAttempts.simps [of 3 _ _ 0]
        cleanup_import_after_component import_after_component_start
        import_after_component_raw_valid import_after_component_valid)

section \<open>The generation flows when every attempt fails\<close>

lemma create_flow_falls_back:
  assumes "\<forall>n<3. attempt_fails (replies n)"
  shows "generateReactComponent description apiKey replies = (Some (Inr (getFallbackComponent description)), 3)"
proof -
  have f0: "attempt_fails (replies 0)" and f1: "attempt_fails (replies 1)"
    and f2: "attempt_fails (replies 2)"
    using assms by auto
  have a2: "generateAttempts 3 description replies 2 = (Some (Inr (getFallbackComponent description)), 3)"
    using f2
    by (subst generateAttempts.simps)
       (auto simp: attempt_fails_def eval_nat_numeral split: reply.splits option.splits if_splits)
  have a1: "generateAttempts 3 description replies 1 = (Some (Inr (getFallbackComponent description)), 3)"
    using f1 a2
    by (subst generateAttempts.simps)
       (auto simp: attempt_fails_def eval_nat_numeral split: reply.splits option.splits if_splits)
  have a0: "generateAttempts 3 description replies 0 = (Some (Inr (getFallbackComponent description)), 3)"
    using f0 a1
    by (subst generateAttempts.simps)
       (auto simp: attempt_fails_def eval_nat_numeral split: reply.splits option.splits if_splits)
  show ?thesis
    by (simp add: generateReactComponent_def a0)
qed

lemma catchBlock_typed: "is_typed_error (catchBlock msgs e)"
  by (simp add: catchBlock_def newError_def is_typed_error_def)

lemma repair_flow_throws:
  assumes "\<forall>n<2. repair_fails (replies n)"
  shows "\<exists>e. repairAttempts msgs 2 replies 0 = (Some (Inl e), 2) \<and> is_typed_error e"
proof -
  have f0: "repair_fails (replies 0)" and f1: "repair_fails (replies 1)"
    using assms by auto
  have a1: "\<exists>e. repairAttempts msgs 2 replies 1 = (Some (Inl e), 2) \<and> is_typed_error e"
    using f1
    by (subst repairAttempts.simps)
       (auto simp: repair_fails_def catchBlock_typed eval_nat_numeral split: reply.splits option.splits if_splits)
  show ?thesis
    using f0 a1
    by (subst repairAttempts.simps)
       (auto simp: repair_fails_def eval_nat_numeral split: reply.splits option.splits if_splits)
qed

lemma fix_flow_throws:
  assumes "getApiKey env = Inr apiKey" and "\<forall>n<2. repair_fails (replies n)"
  shows "\<exists>e. fixBrokenComponent env brokenCode errs originalDescription replies = (Some (Inl e), 2)
             \<and> is_typed_error e"
  using assms(1) repair_flow_throws [OF assms(2), of fixMessages]
  by (simp add: fixBrokenComponent_def)

lemma fallback_with_brace_rejected: "\<not> validateGeneratedCode (getFallbackComponent ''{'')"
  by code_simp

lemma fallback_of_counter_valid: "validateGeneratedCode (getFallbackComponent ''a counter'')"
  by code_simp

text \<open>
  Claim C1. The flows do what the claim says: when the three attempts of the create flow
  fail it returns the fallback component and throws nothing, and when the two attempts of
  the fix flow fail it throws a typed error. But the fallback is not a valid component for
  every description: the description is put into the text as it is, and for the
  description \<open>{\<close> the fallback that the create flow returns has an unmatched brace and is
  rejected by \<open>validateGeneratedCode\<close>, the check that generated code has to pass.
\<close>

theorem fallback_is_not_always_valid:
  "generateReactComponent ''{'' ''key'' (\<lambda>n. Threw OtherValue) = (Some (Inr (getFallbackComponent ''{'')), 3)
   \<and> \<not> validateGeneratedCode (getFallbackComponent ''{'')
   \<and> validateGeneratedCode (getFallbackComponent ''a counter'')"
  using create_flow_falls_back [of "\<lambda>n. Threw OtherValue" "''{''" "''key''"]
        fallback_with_brace_rejected fallback_of_counter_valid
  by (simp add: attempt_fails_def)

end
